theory Spec2Isabelle
  imports Main
begin

section \<open>JavaScript values\<close>

text \<open>
  The values the backend holds are those a JSON request body, a multipart form or the
  clock can produce, plus \<open>undefined\<close> (a field missing from a request).  A number of
  the program is a double.  \<open>JNum n\<close> is the finite number whose value is the integer
  \<open>n\<close> (identifiers are \<open>Date.now()\<close>, sizes are byte counts); it lies within the
  range of the doubles, see \<open>in_double_range\<close>.  \<open>JInf True\<close> is \<open>Infinity\<close>, which is
  what a body parser reads from a numeral beyond that range such as \<open>1e400\<close>,
  \<open>JInf False\<close> is \<open>-Infinity\<close>, and \<open>JNegZero\<close> is the negative zero that \<open>-0\<close>
  is read as.  No value that the handlers store is \<open>NaN\<close>.  An object is the list of its
  own properties in insertion order.
\<close>

datatype json =
    JUndefined
  | JNull
  | JBool bool
  | JNum int
  | JInf bool
  | JNegZero
  | JStr string
  | JArr "json list"
  | JObj "(string \<times> json) list"

text \<open>Every finite double is smaller in magnitude than \<open>2 ^ 1024\<close>.\<close>

definition in_double_range :: "int \<Rightarrow> bool" where
  "in_double_range n = (\<bar>n\<bar> < 2 ^ 1024)"

type_synonym obj = "(string \<times> json) list"

text \<open>\<open>o.k\<close> and \<open>o[k]\<close> on an object: the value of the own property, \<open>undefined\<close>
  when there is none.  This is what a read gives for every name that \<open>Object.prototype\<close>
  does not define; the fixed names the handlers read (\<open>id\<close>, \<open>email\<close>, \<open>password\<close>,
  \<open>endpoint\<close>) are such names.\<close>

definition get_prop :: "obj \<Rightarrow> string \<Rightarrow> json" where
  "get_prop ob k = (case map_of ob k of Some v \<Rightarrow> v | None \<Rightarrow> JUndefined)"

text \<open>\<open>{...o, k: v}\<close> and \<open>o[k] = v\<close>: an existing property keeps its place and takes
  the new value, a new one is appended.  (An assignment \<open>o[k] = v\<close> with the name
  \<open>__proto__\<close> is the one exception in the language: it sets the prototype of the object
  and no property.)\<close>

primrec set_prop :: "string \<Rightarrow> json \<Rightarrow> obj \<Rightarrow> obj" where
  "set_prop k v [] = [(k, v)]"
| "set_prop k v (p # ps) = (if fst p = k then (k, v) # ps else p # set_prop k v ps)"

text \<open>\<open>{...a, ...b}\<close>: the properties of \<open>b\<close> are written over those of \<open>a\<close>, in
  the order in which \<open>b\<close> lists them.\<close>

definition spread :: "obj \<Rightarrow> obj \<Rightarrow> obj" where
  "spread a b = foldl (\<lambda>acc p. set_prop (fst p) (snd p) acc) a b"

text \<open>\<open>const { k: _, ...rest } = o\<close>: every own property but \<open>k\<close>.\<close>

definition without :: "string \<Rightarrow> obj \<Rightarrow> obj" where
  "without k ob = filter (\<lambda>p. fst p \<noteq> k) ob"

text \<open>\<open>!!v\<close>.\<close>

fun truthy :: "json \<Rightarrow> bool" where
  "truthy JUndefined = False"
| "truthy JNull = False"
| "truthy (JBool b) = b"
| "truthy (JNum n) = (n \<noteq> 0)"
| "truthy (JInf b) = True"
| "truthy JNegZero = False"
| "truthy (JStr s) = (s \<noteq> [])"
| "truthy (JArr xs) = True"
| "truthy (JObj kvs) = True"

text \<open>\<open>a || b\<close>.\<close>

definition js_or :: "json \<Rightarrow> json \<Rightarrow> json" where
  "js_or a b = (if truthy a then a else b)"

text \<open>\<open>a === b\<close> between a stored value and a value of the current request.  Primitives
  compare by value, and the two zeros are equal; an array or an object is only identical
  to itself, and a value that arrived with this request is never the same object as a
  stored one.\<close>

fun strict_eq :: "json \<Rightarrow> json \<Rightarrow> bool" where
  "strict_eq JUndefined JUndefined = True"
| "strict_eq JNull JNull = True"
| "strict_eq (JBool a) (JBool b) = (a = b)"
| "strict_eq (JNum a) (JNum b) = (a = b)"
| "strict_eq (JNum a) JNegZero = (a = 0)"
| "strict_eq JNegZero (JNum b) = (b = 0)"
| "strict_eq JNegZero JNegZero = True"
| "strict_eq (JInf a) (JInf b) = (a = b)"
| "strict_eq (JStr a) (JStr b) = (a = b)"
| "strict_eq _ _ = False"

text \<open>\<open>v.length\<close> for a truthy \<open>v\<close>; the length of a text is the number of its
  characters.\<close>

fun js_length :: "json \<Rightarrow> json" where
  "js_length (JStr s) = JNum (int (length s))"
| "js_length (JArr xs) = JNum (int (length xs))"
| "js_length (JObj kvs) = get_prop kvs ''length''"
| "js_length _ = JUndefined"

text \<open>\<open>xs.findIndex(p)\<close>, with \<open>None\<close> for \<open>-1\<close>, and \<open>xs.splice(i, 1)\<close>.\<close>

primrec findIndex :: "('a \<Rightarrow> bool) \<Rightarrow> 'a list \<Rightarrow> nat option" where
  "findIndex P [] = None"
| "findIndex P (x # xs) =
     (if P x then Some 0 else map_option Suc (findIndex P xs))"

definition splice1 :: "nat \<Rightarrow> 'a list \<Rightarrow> 'a list" where
  "splice1 i xs = take i xs @ drop (Suc i) xs"

text \<open>What \<open>JSON.parse(JSON.stringify(v))\<close> returns: a property whose value is
  \<open>undefined\<close> is left out, an \<open>undefined\<close> array element becomes \<open>null\<close>, an
  infinity is written as \<open>null\<close>, the negative zero is written as \<open>0\<close>, and every other
  value comes back as it was.\<close>

definition hole_to_null :: "json \<Rightarrow> json" where
  "hole_to_null v = (if v = JUndefined then JNull else v)"

primrec json_roundtrip :: "json \<Rightarrow> json" where
  "json_roundtrip JUndefined = JUndefined"
| "json_roundtrip JNull = JNull"
| "json_roundtrip (JBool b) = JBool b"
| "json_roundtrip (JNum n) = JNum n"
| "json_roundtrip (JInf b) = JNull"
| "json_roundtrip JNegZero = JNum 0"
| "json_roundtrip (JStr s) = JStr s"
| "json_roundtrip (JArr xs) = JArr (map hole_to_null (map json_roundtrip xs))"
| "json_roundtrip (JObj kvs) =
     JObj (filter (\<lambda>p. snd p \<noteq> JUndefined) (map (map_prod id json_roundtrip) kvs))"

definition obj_roundtrip :: "obj \<Rightarrow> obj" where
  "obj_roundtrip ob = filter (\<lambda>p. snd p \<noteq> JUndefined) (map (map_prod id json_roundtrip) ob)"

text \<open>A value that JSON has as it is: it is not \<open>undefined\<close>, not an infinity and not
  the negative zero, a number in it is within the range of the doubles, and the same holds
  of every element and property value inside it.\<close>

fun defined :: "json \<Rightarrow> bool" where
  "defined JUndefined = False"
| "defined (JInf b) = False"
| "defined JNegZero = False"
| "defined (JNum n) = in_double_range n"
| "defined (JArr xs) = (\<forall>x \<in> set xs. defined x)"
| "defined (JObj kvs) = (\<forall>p \<in> set kvs. defined (snd p))"
| "defined _ = True"

definition obj_defined :: "obj \<Rightarrow> bool" where
  "obj_defined ob = (\<forall>p \<in> set ob. defined (snd p))"

text \<open>Every number in a value is within the range of the doubles, as every number of the
  program is.\<close>

fun finite_numbers :: "json \<Rightarrow> bool" where
  "finite_numbers (JNum n) = in_double_range n"
| "finite_numbers (JArr xs) = (\<forall>x \<in> set xs. finite_numbers x)"
| "finite_numbers (JObj kvs) = (\<forall>p \<in> set kvs. finite_numbers (snd p))"
| "finite_numbers _ = True"

text \<open>The decimal numeral of a number, as \<open>'session_' + Date.now()\<close> builds it.\<close>

definition digit_char :: "nat \<Rightarrow> char" where
  "digit_char d = char_of (48 + d)"

fun dec_nat :: "nat \<Rightarrow> string" where
  "dec_nat n = (if n < 10 then [digit_char n] else dec_nat (n div 10) @ [digit_char (n mod 10)])"

declare dec_nat.simps [simp del]

definition dec :: "int \<Rightarrow> string" where
  "dec i = (if i < 0 then CHR ''-'' # dec_nat (nat (- i)) else dec_nat (nat i))"

section \<open>The in-memory server with snapshots in cloud storage\<close>

text \<open>
  A handler is a function from the request, what the request reads from outside, and the
  state of the server to the response and the new state.  A request reaches its handler
  after the body parsers and the upload middleware; one that they reject is not handled.
  A handler runs to its end before the next request is handled: the code gives way to
  another request only where it awaits the save, after the variables were assigned.  With
  the variables holding lists of objects and objects, as they do from the start and after
  every load of a snapshot this server wrote, no statement inside the \<open>try\<close> blocks of the
  handlers throws, so the \<open>catch\<close> blocks with their 500 responses are not reached.
\<close>

subsection \<open>State\<close>

text \<open>The module-level variables \<open>users\<close>, \<open>articles\<close>, \<open>config\<close>,
  \<open>understanding\<close> and \<open>pushSubscriptions\<close>.\<close>

record store =
  users :: "obj list"
  articles :: "obj list"
  config :: obj
  understanding :: obj
  pushSubscriptions :: "obj list"

definition default_config :: obj where
  "default_config =
    [(''app_title'', JStr ''MUK-BIOMEDSSA''),
     (''app_subtitle'', JStr ''Research App''),
     (''welcome_message'', JStr ''Stay Updated with the Latest Biomedical Research Discoveries''),
     (''primary_color'', JStr ''#0D7377''),
     (''secondary_color'', JStr ''#f8fafc''),
     (''accent_color'', JStr ''#16a34a''),
     (''text_color'', JStr ''#1e293b''),
     (''about_description'',
        JStr ''To provide biomedical science students with accessible, curated research content''),
     (''font_family'', JStr ''Plus Jakarta Sans''),
     (''font_size'', JNum 16),
     (''contact_email'', JStr ''biomedssa@muk.ac.zm''),
     (''contact_location'', JStr ''Mukuba University, Kitwe''),
     (''contact_website'', JStr [])]"

definition init_store :: store where
  "init_store =
    \<lparr>users = [], articles = [], config = default_config, understanding = [],
     pushSubscriptions = []\<rparr>"

text \<open>The document \<open>{ users, articles, config, understanding, lastUpdated }\<close> as
  \<open>JSON.parse\<close> returns it.  A key is \<open>None\<close> when the document does not have it
  (or has a falsy value there), so that \<open>data.users || []\<close> takes its right-hand side
  exactly on \<open>None\<close>: an array or an object is truthy even when it is empty.\<close>

record snapshot =
  snap_users :: "obj list option"
  snap_articles :: "obj list option"
  snap_config :: "obj option"
  snap_understanding :: "obj option"
  snap_lastUpdated :: "string option"

text \<open>A raw file in cloud storage, told apart by what \<open>JSON.parse\<close> makes of its text:
  a syntax error, the value \<open>null\<close>, or a document.\<close>

datatype blob = Not_json | Json_null | Json_doc snapshot

text \<open>Cloud storage maps a \<open>public_id\<close> to the raw file stored under it.\<close>

type_synonym cloud = "string \<Rightarrow> blob option"

definition DATABASE_ID :: string where
  "DATABASE_ID = ''muk-data/database''"

record world =
  mem :: store
  cloud :: cloud

text \<open>What a request reads from outside the process: the clock (each field is one reading),
  whether the upload of the snapshot goes through and, for the server on JSON files,
  whether the write of a file does.\<close>

record env =
  date_now :: int
  date_iso :: string
  session_now :: int
  upload_ok :: bool
  write_ok :: bool

text \<open>What the start-up reads from outside: whether the storage API answers, and whether
  the download of the file it points to goes through.\<close>

record net =
  api_ok :: bool
  download_ok :: bool

datatype response = Response (status: int) (body: json)

definition error_body :: "string \<Rightarrow> json" where
  "error_body msg = JObj [(''error'', JStr msg)]"

definition message_body :: "string \<Rightarrow> json" where
  "message_body msg = JObj [(''message'', JStr msg)]"

subsection \<open>Snapshots\<close>

datatype load_log = Data_loaded nat nat | No_existing_data

text \<open>\<open>loadDataFromCloudinary\<close>.  Everything that can throw is inside the \<open>try\<close>:
  the lookup of the resource (it does not exist, or the API fails), the download, the
  parse, and \<open>data.users\<close> when the document is \<open>null\<close>.  The \<open>catch\<close> logs and
  assigns nothing.\<close>

definition loadDataFromCloudinary :: "net \<Rightarrow> cloud \<Rightarrow> store \<Rightarrow> load_log \<times> store" where
  "loadDataFromCloudinary nt c s =
    (if \<not> api_ok nt then (No_existing_data, s)
     else case c DATABASE_ID of
       None \<Rightarrow> (No_existing_data, s)
     | Some b \<Rightarrow>
         if \<not> download_ok nt then (No_existing_data, s)
         else case b of
           Not_json \<Rightarrow> (No_existing_data, s)
         | Json_null \<Rightarrow> (No_existing_data, s)
         | Json_doc data \<Rightarrow>
             (let s' = s\<lparr>users := (case snap_users data of Some v \<Rightarrow> v | None \<Rightarrow> []),
                          articles := (case snap_articles data of Some v \<Rightarrow> v | None \<Rightarrow> []),
                          config := (case snap_config data of Some v \<Rightarrow> v | None \<Rightarrow> config s),
                          understanding :=
                            (case snap_understanding data of Some v \<Rightarrow> v | None \<Rightarrow> [])\<rparr>
              in (Data_loaded (length (articles s')) (length (users s')), s')))"

text \<open>\<open>saveDataToCloudinary\<close>: the document is built from the four variables, serialised
  and uploaded under the one \<open>public_id\<close> with \<open>overwrite: true\<close>.  The result is
  \<open>true\<close> when the upload went through, \<open>false\<close> when it was rejected.\<close>

definition snapshot_of :: "string \<Rightarrow> store \<Rightarrow> snapshot" where
  "snapshot_of stamp s =
    \<lparr>snap_users = Some (map obj_roundtrip (users s)),
     snap_articles = Some (map obj_roundtrip (articles s)),
     snap_config = Some (obj_roundtrip (config s)),
     snap_understanding = Some (obj_roundtrip (understanding s)),
     snap_lastUpdated = Some stamp\<rparr>"

definition saveDataToCloudinary :: "env \<Rightarrow> store \<Rightarrow> cloud \<Rightarrow> bool \<times> cloud" where
  "saveDataToCloudinary e s c =
    (let data = snapshot_of (date_iso e) s
     in if upload_ok e then (True, c(DATABASE_ID \<mapsto> Json_doc data)) else (False, c))"

text \<open>The start of the server: \<open>loadDataFromCloudinary().then(() => app.listen(...))\<close>
  on the initial variables.  The promise always resolves, so the server always listens.\<close>

definition start_server :: "net \<Rightarrow> cloud \<Rightarrow> load_log \<times> world" where
  "start_server nt c =
    (let (lg, s) = loadDataFromCloudinary nt c init_store in (lg, \<lparr>mem = s, cloud = c\<rparr>))"

text \<open>A handler mutates the variables, awaits the save and responds; the result of the
  save is not looked at.\<close>

definition saved :: "env \<Rightarrow> store \<Rightarrow> cloud \<Rightarrow> world" where
  "saved e s c = \<lparr>mem = s, cloud = snd (saveDataToCloudinary e s c)\<rparr>"

subsection \<open>Requests\<close>

text \<open>A field that the request does not carry is \<open>undefined\<close>.\<close>

record auth_body =
  name :: json
  email :: json
  password :: json

record article_body =
  title :: json
  category :: json
  description :: json
  authors :: json
  institution :: json
  publicationDate :: json

text \<open>An uploaded file as the upload middleware hands it to the handler.\<close>

record upfile =
  originalname :: json
  url :: json
  path :: json
  filesize :: json
  filename :: json

record push_body =
  endpoint :: json
  keys :: json

text \<open>Two operators of the language coerce their operands: \<open>a.id == req.params.id\<close>
  compares a stored value with the text of a route parameter, and
  \<open>password.length < 6\<close> compares a value with a number.  The handlers take them as
  arguments (\<open>eqv\<close> and \<open>lt\<close>), so that what is proved holds for whatever the language
  decides.  \<open>eq_decimal\<close> and \<open>lt_number\<close> are the instances at which the handlers are
  evaluated: they say what the operators do when the left operand is a number (or has no
  numeric value) and the text is an unsigned decimal numeral of at most 15 digits, which
  a double holds exactly.\<close>

definition digit_of :: "char \<Rightarrow> nat option" where
  "digit_of c =
    (let n = (of_char c :: nat) in if 48 \<le> n \<and> n \<le> 57 then Some (n - 48) else None)"

primrec numeral_value :: "nat \<Rightarrow> string \<Rightarrow> nat option" where
  "numeral_value acc [] = Some acc"
| "numeral_value acc (c # cs) =
     (case digit_of c of None \<Rightarrow> None | Some d \<Rightarrow> numeral_value (10 * acc + d) cs)"

definition decimal :: "string \<Rightarrow> int option" where
  "decimal s = (if s = [] then None else map_option int (numeral_value 0 s))"

fun eq_decimal :: "json \<Rightarrow> string \<Rightarrow> bool" where
  "eq_decimal (JNum n) s = (decimal s = Some n)"
| "eq_decimal JNegZero s = (decimal s = Some 0)"
| "eq_decimal (JStr t) s = (t = s)"
| "eq_decimal _ s = False"

fun lt_number :: "json \<Rightarrow> int \<Rightarrow> bool" where
  "lt_number (JNum m) n = (m < n)"
| "lt_number JNegZero n = (0 < n)"
| "lt_number (JInf b) n = (\<not> b)"
| "lt_number _ n = False"

subsection \<open>Authentication and users\<close>

text \<open>\<open>POST /auth/register\<close>.\<close>

definition new_user :: "env \<Rightarrow> auth_body \<Rightarrow> obj" where
  "new_user e b =
    [(''id'', JNum (date_now e)),
     (''name'', name b),
     (''email'', email b),
     (''password'', password b),
     (''createdAt'', JStr (date_iso e))]"

definition session_body :: "env \<Rightarrow> obj \<Rightarrow> json" where
  "session_body e user =
    JObj [(''user'', JObj (without ''password'' user)),
          (''session'', JStr (''session_'' @ dec (session_now e)))]"

definition post_auth_register ::
  "(json \<Rightarrow> int \<Rightarrow> bool) \<Rightarrow> env \<Rightarrow> auth_body \<Rightarrow> world \<Rightarrow> response \<times> world" where
  "post_auth_register lt e b w =
    (if \<not> truthy (name b) \<or> \<not> truthy (email b) \<or> \<not> truthy (password b)
     then (Response 400 (error_body ''Please fill in all fields''), w)
     else if lt (js_length (password b)) 6
     then (Response 400 (error_body ''Password must be at least 6 characters''), w)
     else if find (\<lambda>u. strict_eq (get_prop u ''email'') (email b)) (users (mem w)) \<noteq> None
     then (Response 400 (error_body ''Email already registered''), w)
     else
       (let newUser = new_user e b;
            s = (mem w)\<lparr>users := users (mem w) @ [newUser]\<rparr>
        in (Response 200 (session_body e newUser), saved e s (cloud w))))"

text \<open>\<open>POST /auth/login\<close>.\<close>

definition post_auth_login :: "env \<Rightarrow> auth_body \<Rightarrow> world \<Rightarrow> response \<times> world" where
  "post_auth_login e b w =
    (if \<not> truthy (email b) \<or> \<not> truthy (password b)
     then (Response 400 (error_body ''Please enter email and password''), w)
     else case find (\<lambda>u. strict_eq (get_prop u ''email'') (email b) \<and>
                           strict_eq (get_prop u ''password'') (password b)) (users (mem w)) of
       None \<Rightarrow> (Response 401 (error_body ''Invalid email or password''), w)
     | Some user \<Rightarrow> (Response 200 (session_body e user), w))"

text \<open>\<open>GET /users\<close> and \<open>DELETE /users/:id\<close>.\<close>

definition get_users :: "world \<Rightarrow> response" where
  "get_users w = Response 200 (JArr (map (\<lambda>u. JObj (without ''password'' u)) (users (mem w))))"

definition delete_user ::
  "(json \<Rightarrow> string \<Rightarrow> bool) \<Rightarrow> env \<Rightarrow> string \<Rightarrow> world \<Rightarrow> response \<times> world" where
  "delete_user eqv e rid w =
    (case findIndex (\<lambda>u. eqv (get_prop u ''id'') rid) (users (mem w)) of
       None \<Rightarrow> (Response 404 (error_body ''User not found''), w)
     | Some index \<Rightarrow>
         (let s = (mem w)\<lparr>users := splice1 index (users (mem w))\<rparr>
          in (Response 200 (message_body ''User deleted successfully''), saved e s (cloud w))))"

subsection \<open>Articles\<close>

text \<open>\<open>GET /articles\<close> and \<open>GET /articles/:id\<close>.\<close>

definition get_articles :: "world \<Rightarrow> response" where
  "get_articles w = Response 200 (JArr (map JObj (articles (mem w))))"

definition get_article :: "(json \<Rightarrow> string \<Rightarrow> bool) \<Rightarrow> string \<Rightarrow> world \<Rightarrow> response" where
  "get_article eqv rid w =
    (case find (\<lambda>a. eqv (get_prop a ''id'') rid) (articles (mem w)) of
       None \<Rightarrow> Response 404 (error_body ''Article not found'')
     | Some article \<Rightarrow> Response 200 (JObj article))"

text \<open>\<open>POST /articles\<close>.\<close>

definition new_article :: "env \<Rightarrow> article_body \<Rightarrow> upfile option \<Rightarrow> obj" where
  "new_article e b file =
    [(''id'', JNum (date_now e)),
     (''title'', title b),
     (''category'', category b),
     (''description'', description b),
     (''authors'', authors b),
     (''institution'', institution b),
     (''publicationDate'', publicationDate b),
     (''pdfName'', (case file of Some f \<Rightarrow> originalname f | None \<Rightarrow> JStr [])),
     (''pdfUrl'', (case file of Some f \<Rightarrow> js_or (url f) (path f) | None \<Rightarrow> JStr [])),
     (''pdfFile'', JBool (file \<noteq> None)),
     (''createdAt'', JStr (date_iso e))]"

definition post_article ::
  "env \<Rightarrow> article_body \<Rightarrow> upfile option \<Rightarrow> world \<Rightarrow> response \<times> world" where
  "post_article e b file w =
    (if \<not> truthy (title b) \<or> \<not> truthy (category b)
     then (Response 400 (error_body ''Title and category are required''), w)
     else
       (let newArticle = new_article e b file;
            s = (mem w)\<lparr>articles := articles (mem w) @ [newArticle]\<rparr>
        in (Response 200 (JObj newArticle), saved e s (cloud w))))"

text \<open>\<open>PUT /articles/:id\<close>.\<close>

definition article_patch :: "article_body \<Rightarrow> upfile option \<Rightarrow> obj" where
  "article_patch b file =
    [(''title'', title b),
     (''category'', category b),
     (''description'', description b),
     (''authors'', authors b),
     (''institution'', institution b),
     (''publicationDate'', publicationDate b)] @
    (case file of
       Some f \<Rightarrow> [(''pdfName'', originalname f),
                  (''pdfUrl'', js_or (url f) (path f)),
                  (''pdfFile'', JBool True)]
     | None \<Rightarrow> [])"

definition put_article ::
  "(json \<Rightarrow> string \<Rightarrow> bool) \<Rightarrow> env \<Rightarrow> string \<Rightarrow> article_body \<Rightarrow> upfile option \<Rightarrow> world
     \<Rightarrow> response \<times> world" where
  "put_article eqv e rid b file w =
    (case findIndex (\<lambda>a. eqv (get_prop a ''id'') rid) (articles (mem w)) of
       None \<Rightarrow> (Response 404 (error_body ''Article not found''), w)
     | Some index \<Rightarrow>
         (let updated = spread (articles (mem w) ! index) (article_patch b file);
              s = (mem w)\<lparr>articles := (articles (mem w))[index := updated]\<rparr>
          in (Response 200 (JObj (articles s ! index)), saved e s (cloud w))))"

text \<open>\<open>DELETE /articles/:id\<close>.\<close>

definition delete_article ::
  "(json \<Rightarrow> string \<Rightarrow> bool) \<Rightarrow> env \<Rightarrow> string \<Rightarrow> world \<Rightarrow> response \<times> world" where
  "delete_article eqv e rid w =
    (case findIndex (\<lambda>a. eqv (get_prop a ''id'') rid) (articles (mem w)) of
       None \<Rightarrow> (Response 404 (error_body ''Article not found''), w)
     | Some index \<Rightarrow>
         (let s = (mem w)\<lparr>articles := splice1 index (articles (mem w))\<rparr>
          in (Response 200 (message_body ''Article deleted successfully''), saved e s (cloud w))))"

subsection \<open>Configuration\<close>

text \<open>\<open>GET /config\<close> and \<open>POST /config\<close>: \<open>config = { ...config, ...req.body }\<close>.\<close>

definition get_config :: "world \<Rightarrow> response" where
  "get_config w = Response 200 (JObj (config (mem w)))"

definition post_config :: "env \<Rightarrow> obj \<Rightarrow> world \<Rightarrow> response \<times> world" where
  "post_config e b w =
    (let s = (mem w)\<lparr>config := spread (config (mem w)) b\<rparr>
     in (Response 200 (JObj (config s)), saved e s (cloud w)))"

subsection \<open>Understanding materials\<close>


definition get_understanding_all :: "world \<Rightarrow> response" where
  "get_understanding_all w = Response 200 (JObj (understanding (mem w)))"




subsection \<open>Push subscriptions\<close>

text \<open>\<open>POST /push/subscribe\<close> and \<open>POST /push/unsubscribe\<close>.  Neither saves.\<close>

definition post_push_subscribe :: "push_body \<Rightarrow> world \<Rightarrow> response \<times> world" where
  "post_push_subscribe b w =
    (let s = (if find (\<lambda>s. strict_eq (get_prop s ''endpoint'') (endpoint b))
                      (pushSubscriptions (mem w)) = None
              then (mem w)\<lparr>pushSubscriptions :=
                     pushSubscriptions (mem w) @ [[(''endpoint'', endpoint b), (''keys'', keys b)]]\<rparr>
              else mem w)
     in (Response 200 (message_body ''Subscribed successfully''), w\<lparr>mem := s\<rparr>))"

definition post_push_unsubscribe :: "push_body \<Rightarrow> world \<Rightarrow> response \<times> world" where
  "post_push_unsubscribe b w =
    (let s = (mem w)\<lparr>pushSubscriptions :=
                filter (\<lambda>s. \<not> strict_eq (get_prop s ''endpoint'') (endpoint b))
                       (pushSubscriptions (mem w))\<rparr>
     in (Response 200 (message_body ''Unsubscribed successfully''), w\<lparr>mem := s\<rparr>))"

section \<open>The first in-memory server\<close>

text \<open>The second server of \<open>index.js\<close> that keeps its data in memory has the same variables
  and the same handler bodies without the \<open>try\<close> blocks.  Its snapshot lives under another
  \<open>public_id\<close>, is read with \<open>fetch\<close> and \<open>response.json()\<close>, carries no
  \<open>lastUpdated\<close>, and its upload is not awaited: a failure is only logged.\<close>

definition DATABASE_ID_v1 :: string where
  "DATABASE_ID_v1 = ''muk-data/database.json''"

definition loadDataFromCloudinary_v1 :: "net \<Rightarrow> cloud \<Rightarrow> store \<Rightarrow> load_log \<times> store" where
  "loadDataFromCloudinary_v1 nt c s =
    (if \<not> api_ok nt then (No_existing_data, s)
     else case c DATABASE_ID_v1 of
       None \<Rightarrow> (No_existing_data, s)
     | Some b \<Rightarrow>
         if \<not> download_ok nt then (No_existing_data, s)
         else case b of
           Not_json \<Rightarrow> (No_existing_data, s)
         | Json_null \<Rightarrow> (No_existing_data, s)
         | Json_doc data \<Rightarrow>
             (let s' = s\<lparr>users := (case snap_users data of Some v \<Rightarrow> v | None \<Rightarrow> []),
                          articles := (case snap_articles data of Some v \<Rightarrow> v | None \<Rightarrow> []),
                          config := (case snap_config data of Some v \<Rightarrow> v | None \<Rightarrow> config s),
                          understanding :=
                            (case snap_understanding data of Some v \<Rightarrow> v | None \<Rightarrow> [])\<rparr>
              in (Data_loaded (length (articles s')) (length (users s')), s')))"

definition start_server_v1 :: "net \<Rightarrow> cloud \<Rightarrow> load_log \<times> world" where
  "start_server_v1 nt c =
    (let (lg, s) = loadDataFromCloudinary_v1 nt c init_store in (lg, \<lparr>mem = s, cloud = c\<rparr>))"

definition saveDataToCloudinary_v1 :: "env \<Rightarrow> store \<Rightarrow> cloud \<Rightarrow> cloud" where
  "saveDataToCloudinary_v1 e s c =
    (let data = (snapshot_of [] s)\<lparr>snap_lastUpdated := None\<rparr>
     in if upload_ok e then c(DATABASE_ID_v1 \<mapsto> Json_doc data) else c)"

definition post_push_subscribe_v1 :: "push_body \<Rightarrow> world \<Rightarrow> response \<times> world" where
  "post_push_subscribe_v1 b w =
    (let s = (if find (\<lambda>s. strict_eq (get_prop s ''endpoint'') (endpoint b))
                      (pushSubscriptions (mem w)) = None
              then (mem w)\<lparr>pushSubscriptions :=
                     pushSubscriptions (mem w) @ [[(''endpoint'', endpoint b), (''keys'', keys b)]]\<rparr>
              else mem w)
     in (Response 200 (message_body ''Subscribed successfully''), w\<lparr>mem := s\<rparr>))"

section \<open>The server on JSON files\<close>

subsection \<open>Files\<close>

text \<open>The four files of the data directory.  A file is \<open>None\<close> when reading or parsing
  it throws; otherwise it holds what \<open>JSON.parse\<close> returns for its text.\<close>

record files =
  USERS_FILE :: "obj list option"
  ARTICLES_FILE :: "obj list option"
  CONFIG_FILE :: "obj option"
  UNDERSTANDING_FILE :: "obj option"

definition file_default_config :: obj where
  "file_default_config =
    [(''app_title'', JStr ''MUK-BIOMEDSSA''),
     (''app_subtitle'', JStr ''Research App''),
     (''welcome_message'', JStr ''Stay Updated with the Latest Biomedical Research Discoveries''),
     (''primary_color'', JStr ''#0D7377''),
     (''secondary_color'', JStr ''#f8fafc''),
     (''accent_color'', JStr ''#16a34a''),
     (''text_color'', JStr ''#1e293b''),
     (''about_description'',
        JStr (''To provide biomedical science students with accessible, curated research '' @
              ''content that bridges the gap between academic literature and practical '' @
              ''understanding, fostering the next generation of healthcare researchers and '' @
              ''professionals.'')),
     (''font_family'', JStr ''Plus Jakarta Sans''),
     (''font_size'', JNum 16),
     (''contact_email'', JStr ''biomedssa@muk.ac.zm''),
     (''contact_location'', JStr ''Mukuba University, Kitwe''),
     (''contact_website'', JStr [])]"

text \<open>What the four \<open>initFile\<close> calls leave in an empty data directory.\<close>

definition init_files :: files where
  "init_files =
    \<lparr>USERS_FILE = Some [], ARTICLES_FILE = Some [], CONFIG_FILE = Some file_default_config,
     UNDERSTANDING_FILE = Some []\<rparr>"

text \<open>\<open>readJSON(filePath)\<close>, one function for each file: the parsed content, or in the
  \<open>catch\<close> the empty list for the users and the articles and the empty object for the
  configuration and the understanding materials.\<close>

definition readJSON_users :: "files \<Rightarrow> obj list" where
  "readJSON_users fs = (case USERS_FILE fs of Some v \<Rightarrow> v | None \<Rightarrow> [])"

definition readJSON_articles :: "files \<Rightarrow> obj list" where
  "readJSON_articles fs = (case ARTICLES_FILE fs of Some v \<Rightarrow> v | None \<Rightarrow> [])"

definition readJSON_config :: "files \<Rightarrow> obj" where
  "readJSON_config fs = (case CONFIG_FILE fs of Some v \<Rightarrow> v | None \<Rightarrow> [])"


text \<open>\<open>writeJSON(filePath, data)\<close>, one function for each file: the serialised data
  replaces the file, or the write throws and the file stays as it was.  The handlers do
  not look at the result.\<close>

definition writeJSON_users :: "env \<Rightarrow> obj list \<Rightarrow> files \<Rightarrow> files" where
  "writeJSON_users e d fs = (if write_ok e then fs\<lparr>USERS_FILE := Some (map obj_roundtrip d)\<rparr> else fs)"

definition writeJSON_articles :: "env \<Rightarrow> obj list \<Rightarrow> files \<Rightarrow> files" where
  "writeJSON_articles e d fs =
    (if write_ok e then fs\<lparr>ARTICLES_FILE := Some (map obj_roundtrip d)\<rparr> else fs)"

definition writeJSON_config :: "env \<Rightarrow> obj \<Rightarrow> files \<Rightarrow> files" where
  "writeJSON_config e d fs = (if write_ok e then fs\<lparr>CONFIG_FILE := Some (obj_roundtrip d)\<rparr> else fs)"


subsection \<open>Handlers\<close>

text \<open>\<open>a.id === parseInt(req.params.id)\<close>.  \<open>parseInt\<close> is an argument of the handlers
  (\<open>None\<close> is \<open>NaN\<close>, which is equal to nothing).\<close>

definition id_is :: "(string \<Rightarrow> int option) \<Rightarrow> string \<Rightarrow> obj \<Rightarrow> bool" where
  "id_is pint rid a =
    (case pint rid of None \<Rightarrow> False | Some n \<Rightarrow> strict_eq (get_prop a ''id'') (JNum n))"

definition file_new_user :: "env \<Rightarrow> obj list \<Rightarrow> auth_body \<Rightarrow> obj" where
  "file_new_user e us b =
    [(''id'', JNum (int (length us) + 1)),
     (''name'', name b),
     (''email'', email b),
     (''password'', password b),
     (''createdAt'', JStr (date_iso e))]"

definition file_post_auth_register ::
  "(json \<Rightarrow> int \<Rightarrow> bool) \<Rightarrow> env \<Rightarrow> auth_body \<Rightarrow> files \<Rightarrow> response \<times> files" where
  "file_post_auth_register lt e b fs =
    (if \<not> truthy (name b) \<or> \<not> truthy (email b) \<or> \<not> truthy (password b)
     then (Response 400 (error_body ''Please fill in all fields''), fs)
     else if lt (js_length (password b)) 6
     then (Response 400 (error_body ''Password must be at least 6 characters''), fs)
     else
       (let us = readJSON_users fs
        in if find (\<lambda>u. strict_eq (get_prop u ''email'') (email b)) us \<noteq> None
           then (Response 400 (error_body ''Email already registered''), fs)
           else
             (let newUser = file_new_user e us b
              in (Response 200 (session_body e newUser), writeJSON_users e (us @ [newUser]) fs))))"

definition file_post_auth_login :: "env \<Rightarrow> auth_body \<Rightarrow> files \<Rightarrow> response" where
  "file_post_auth_login e b fs =
    (if \<not> truthy (email b) \<or> \<not> truthy (password b)
     then Response 400 (error_body ''Please enter email and password'')
     else case find (\<lambda>u. strict_eq (get_prop u ''email'') (email b) \<and>
                           strict_eq (get_prop u ''password'') (password b)) (readJSON_users fs) of
       None \<Rightarrow> Response 401 (error_body ''Invalid email or password'')
     | Some user \<Rightarrow> Response 200 (session_body e user))"

definition file_get_article :: "(string \<Rightarrow> int option) \<Rightarrow> string \<Rightarrow> files \<Rightarrow> response" where
  "file_get_article pint rid fs =
    (case find (id_is pint rid) (readJSON_articles fs) of
       None \<Rightarrow> Response 404 (error_body ''Article not found'')
     | Some article \<Rightarrow> Response 200 (JObj article))"

definition file_new_article :: "env \<Rightarrow> article_body \<Rightarrow> upfile option \<Rightarrow> obj" where
  "file_new_article e b file =
    [(''id'', JNum (date_now e)),
     (''title'', title b),
     (''category'', category b),
     (''description'', description b),
     (''authors'', authors b),
     (''institution'', institution b),
     (''publicationDate'', publicationDate b),
     (''pdfName'', (case file of Some f \<Rightarrow> filename f | None \<Rightarrow> JStr [])),
     (''pdfFile'', JBool (file \<noteq> None)),
     (''createdAt'', JStr (date_iso e))]"

definition file_post_article ::
  "env \<Rightarrow> article_body \<Rightarrow> upfile option \<Rightarrow> files \<Rightarrow> response \<times> files" where
  "file_post_article e b file fs =
    (let as = readJSON_articles fs;
         newArticle = file_new_article e b file
     in (Response 200 (JObj newArticle), writeJSON_articles e (as @ [newArticle]) fs))"

definition file_article_patch :: "article_body \<Rightarrow> upfile option \<Rightarrow> obj" where
  "file_article_patch b file =
    [(''title'', title b),
     (''category'', category b),
     (''description'', description b),
     (''authors'', authors b),
     (''institution'', institution b),
     (''publicationDate'', publicationDate b)] @
    (case file of
       Some f \<Rightarrow> [(''pdfName'', filename f), (''pdfFile'', JBool True)]
     | None \<Rightarrow> [])"

definition file_put_article ::
  "(string \<Rightarrow> int option) \<Rightarrow> env \<Rightarrow> string \<Rightarrow> article_body \<Rightarrow> upfile option \<Rightarrow> files
     \<Rightarrow> response \<times> files" where
  "file_put_article pint e rid b file fs =
    (let as = readJSON_articles fs
     in case findIndex (id_is pint rid) as of
          None \<Rightarrow> (Response 404 (error_body ''Article not found''), fs)
        | Some index \<Rightarrow>
            (let as' = as[index := spread (as ! index) (file_article_patch b file)]
             in (Response 200 (JObj (as' ! index)), writeJSON_articles e as' fs)))"

text \<open>\<open>DELETE /articles/:id\<close>.  The handler also unlinks the PDF of the article in the
  upload directory, which is not part of the four files.\<close>

definition file_delete_article ::
  "(string \<Rightarrow> int option) \<Rightarrow> env \<Rightarrow> string \<Rightarrow> files \<Rightarrow> response \<times> files" where
  "file_delete_article pint e rid fs =
    (let as = readJSON_articles fs
     in case findIndex (id_is pint rid) as of
          None \<Rightarrow> (Response 404 (error_body ''Article not found''), fs)
        | Some index \<Rightarrow>
            (Response 200 (message_body ''Article deleted successfully''),
             writeJSON_articles e (splice1 index as) fs))"

text \<open>\<open>GET /config\<close> and \<open>POST /config\<close>: \<open>const config = req.body\<close> is written as
  it is.\<close>

definition file_get_config :: "files \<Rightarrow> response" where
  "file_get_config fs = Response 200 (JObj (readJSON_config fs))"

definition file_post_config :: "env \<Rightarrow> obj \<Rightarrow> files \<Rightarrow> response \<times> files" where
  "file_post_config e b fs = (Response 200 (JObj b), writeJSON_config e b fs)"




section \<open>Notions used in the statements\<close>

text \<open>There is no snapshot to load under a \<open>public_id\<close>: nothing is stored there, or what
  is stored there does not parse.\<close>

definition no_snapshot :: "cloud \<Rightarrow> string \<Rightarrow> bool" where
  "no_snapshot c pid = (c pid = None \<or> c pid = Some Not_json)"



text \<open>A value is an object with the property \<open>k\<close>.\<close>

definition has_property :: "string \<Rightarrow> json \<Rightarrow> bool" where
  "has_property k v = (case v of JObj kvs \<Rightarrow> k \<in> fst ` set kvs | _ \<Rightarrow> False)"

text \<open>A response body carries a \<open>password\<close> property: on the body itself, on its
  \<open>user\<close>, or on an element when the body is a list.\<close>

definition shows_password :: "json \<Rightarrow> bool" where
  "shows_password v =
    (has_property ''password'' v \<or>
     (case v of
        JObj kvs \<Rightarrow> has_property ''password'' (get_prop kvs ''user'')
      | JArr xs \<Rightarrow> (\<exists>x \<in> set xs. has_property ''password'' x)
      | _ \<Rightarrow> False))"

text \<open>A sequence of \<open>POST /articles\<close> requests, and a sequence of \<open>POST /auth/register\<close>
  requests, handled one after the other: the responses in order, and the server after the
  last one.\<close>

type_synonym article_request = "env \<times> article_body \<times> upfile option"

fun post_articles :: "article_request list \<Rightarrow> world \<Rightarrow> response list \<times> world" where
  "post_articles [] w = ([], w)"
| "post_articles (rq # rqs) w =
    (let (r, w') = post_article (fst rq) (fst (snd rq)) (snd (snd rq)) w;
         (rs, w'') = post_articles rqs w'
     in (r # rs, w''))"

fun post_registers ::
  "(json \<Rightarrow> int \<Rightarrow> bool) \<Rightarrow> (env \<times> auth_body) list \<Rightarrow> world \<Rightarrow> response list \<times> world" where
  "post_registers lt [] w = ([], w)"
| "post_registers lt (rq # rqs) w =
    (let (r, w') = post_auth_register lt (fst rq) (snd rq) w;
         (rs, w'') = post_registers lt rqs w'
     in (r # rs, w''))"

text \<open>The requests of a sequence that were answered with 200.\<close>

definition accepted :: "'a list \<Rightarrow> response list \<Rightarrow> 'a list" where
  "accepted rqs rs = map fst (filter (\<lambda>p. status (snd p) = 200) (zip rqs rs))"

text \<open>The record that a request of a sequence appends when it is answered with 200.\<close>

definition article_of :: "article_request \<Rightarrow> obj" where
  "article_of rq = new_article (fst rq) (fst (snd rq)) (snd (snd rq))"

definition user_of :: "env \<times> auth_body \<Rightarrow> obj" where
  "user_of rq = new_user (fst rq) (snd rq)"

text \<open>The ids of the records that a sequence of inserts appended to a collection that had
  \<open>n\<close> records before.\<close>

definition assigned_ids :: "nat \<Rightarrow> obj list \<Rightarrow> json list" where
  "assigned_ids n records = map (\<lambda>r. get_prop r ''id'') (drop n records)"

section \<open>Inputs at which the handlers are evaluated\<close>

text \<open>A cloud that stores nothing, the server that has just started on it, and a network
  on which every call goes through.\<close>

definition empty_cloud :: cloud where
  "empty_cloud = (\<lambda>pid. None)"

definition fresh_world :: world where
  "fresh_world = \<lparr>mem = init_store, cloud = empty_cloud\<rparr>"

definition net_up :: net where
  "net_up = \<lparr>api_ok = True, download_ok = True\<rparr>"

text \<open>A request at clock reading \<open>t\<close> whose upload and file write go through.\<close>

definition env_at :: "int \<Rightarrow> env" where
  "env_at t =
    \<lparr>date_now = t, date_iso = ''2024-01-01T00:00:00.000Z'', session_now = t,
     upload_ok = True, write_ok = True\<rparr>"

text \<open>The form \<open>{ title, category }\<close>: the other four fields are not sent.\<close>

definition short_form :: "string \<Rightarrow> string \<Rightarrow> article_body" where
  "short_form t c =
    \<lparr>title = JStr t, category = JStr c, description = JUndefined, authors = JUndefined,
     institution = JUndefined, publicationDate = JUndefined\<rparr>"

text \<open>A push subscription for an endpoint.\<close>

definition subscription :: "string \<Rightarrow> push_body" where
  "subscription ep = \<lparr>endpoint = JStr ep, keys = JObj [(''p256dh'', JStr ''k''), (''auth'', JStr ''a'')]\<rparr>"

text \<open>A registration form.\<close>

definition alice :: auth_body where
  "alice = \<lparr>name = JStr ''Alice'', email = JStr ''alice@muk.ac.zm'', password = JStr ''secret1''\<rparr>"



text \<open>The server after \<open>POST /articles\<close> with \<open>{ title: "A", category: "C" }\<close> at clock
  reading 1000, and after a push subscription on top of that.\<close>

definition one_article_world :: world where
  "one_article_world = snd (post_article (env_at 1000) (short_form ''A'' ''C'') None fresh_world)"

definition example_world :: world where
  "example_world = snd (post_push_subscribe (subscription ''https://push.example/1'') one_article_world)"


text \<open>The server after a second \<open>POST /articles\<close>, \<open>{ title: "B", category: "C" }\<close>, at
  the same clock reading 1000.\<close>

definition twin_world :: world where
  "twin_world = snd (post_article (env_at 1000) (short_form ''B'' ''C'') None one_article_world)"

text \<open>The data directory after \<open>POST /articles\<close> with \<open>{ title: "A", category: "C" }\<close> at
  clock reading 1000.\<close>

definition one_article_files :: files where
  "one_article_files = snd (file_post_article (env_at 1000) (short_form ''A'' ''C'') None init_files)"



text \<open>Two \<open>POST /articles\<close> requests that read the same clock, and two that do not.\<close>

definition two_posts :: "article_request list" where
  "two_posts =
    [(env_at 1000, short_form ''A'' ''C'', None), (env_at 1000, short_form ''B'' ''C'', None)]"

definition later_posts :: "article_request list" where
  "later_posts =
    [(env_at 1000, short_form ''A'' ''C'', None), (env_at 1001, short_form ''B'' ''C'', None)]"

text \<open>The in-memory server after the registration of the form.\<close>

definition alice_world :: world where
  "alice_world = snd (post_auth_register lt_number (env_at 1000) alice fresh_world)"

section \<open>Properties of the values\<close>

subsection \<open>Objects\<close>

lemma get_prop_set_prop:
  "get_prop (set_prop k v ob) k' = (if k' = k then v else get_prop ob k')"
  by (induction ob) (auto simp: get_prop_def)

lemma keys_set_prop: "fst ` set (set_prop k v ob) = insert k (fst ` set ob)"
  by (induction ob) auto

lemma foldl_set_prop_other:
  "k \<notin> fst ` set b \<Longrightarrow>
   get_prop (foldl (\<lambda>acc p. set_prop (fst p) (snd p) acc) a b) k = get_prop a k"
  by (induction b arbitrary: a) (auto simp: get_prop_set_prop)

lemma spread_other: "k \<notin> fst ` set b \<Longrightarrow> get_prop (spread a b) k = get_prop a k"
  by (simp add: spread_def foldl_set_prop_other)

lemma spread_snoc: "spread a (b @ [(k, v)]) = set_prop k v (spread a b)"
  by (simp add: spread_def)

lemma spread_supplied:
  "k \<in> fst ` set b \<Longrightarrow> get_prop (spread a b) k = get_prop (rev b) k"
proof (induction b rule: rev_induct)
  case Nil
  then show ?case by simp
next
  case (snoc p b)
  obtain k' v where p: "p = (k', v)" by (cases p)
  show ?case
  proof (cases "k = k'")
    case True
    have "get_prop (rev (b @ [p])) k = v" by (simp add: p True get_prop_def)
    then show ?thesis by (simp add: p True spread_snoc get_prop_set_prop)
  next
    case False
    with snoc p have "k \<in> fst ` set b" by auto
    have "get_prop (rev (b @ [p])) k = get_prop (rev b) k"
      using False by (simp add: p get_prop_def)
    with snoc.IH[OF \<open>k \<in> fst ` set b\<close>] False show ?thesis
      by (simp add: p spread_snoc get_prop_set_prop)
  qed
qed

lemma get_prop_rev_distinct:
  "distinct (map fst b) \<Longrightarrow> get_prop (rev b) k = get_prop b k"
proof -
  assume d: "distinct (map fst b)"
  then have d': "distinct (map fst (rev b))" by (simp add: rev_map[symmetric])
  have "map_of (rev b) k = map_of b k"
  proof (cases "map_of b k")
    case None
    then have "k \<notin> fst ` set b" by (simp add: map_of_eq_None_iff)
    then have "map_of (rev b) k = None" by (simp add: map_of_eq_None_iff)
    with None show ?thesis by simp
  next
    case (Some v)
    then have "(k, v) \<in> set (rev b)" by (auto dest: map_of_SomeD)
    with d' have "map_of (rev b) k = Some v" by (rule map_of_is_SomeI)
    with Some show ?thesis by simp
  qed
  then show ?thesis by (simp add: get_prop_def)
qed

lemma keys_spread: "fst ` set (spread a b) = fst ` set a \<union> fst ` set b"
proof (induction b rule: rev_induct)
  case Nil
  then show ?case by (simp add: spread_def)
next
  case (snoc p b)
  then show ?case by (cases p) (auto simp: spread_snoc keys_set_prop)
qed

lemma without_key: "k \<notin> fst ` set (without k ob)"
  by (auto simp: without_def)

lemma get_prop_without:
  "get_prop (without k ob) k' = (if k' = k then JUndefined else get_prop ob k')"
  by (induction ob) (auto simp: without_def get_prop_def)

lemma findIndex_None: "findIndex P xs = None \<longleftrightarrow> (\<forall>x \<in> set xs. \<not> P x)"
  by (induction xs) auto

lemma findIndex_Some:
  "findIndex P xs = Some i \<Longrightarrow> i < length xs \<and> P (xs ! i) \<and> (\<forall>j < i. \<not> P (xs ! j))"
proof (induction xs arbitrary: i)
  case Nil
  then show ?case by simp
next
  case (Cons x xs)
  show ?case
  proof (cases "P x")
    case True
    with Cons.prems show ?thesis by simp
  next
    case False
    with Cons.prems obtain j where j: "findIndex P xs = Some j" "i = Suc j" by auto
    from Cons.IH[OF j(1)] False j(2) show ?thesis
      by (auto simp: less_Suc_eq_0_disj)
  qed
qed

lemma find_None_findIndex: "find P xs = None \<longleftrightarrow> findIndex P xs = None"
  by (auto simp: find_None_iff findIndex_None)

lemma json_roundtrip_undefined: "json_roundtrip v = JUndefined \<longleftrightarrow> v = JUndefined"
  by (cases v) auto

lemma json_roundtrip_defined: "defined v \<Longrightarrow> json_roundtrip v = v"
proof (induction v)
  case (JArr xs)
  have "map hole_to_null (map json_roundtrip xs) = xs"
  proof (rule map_idI[where f = "hole_to_null \<circ> json_roundtrip", simplified map_map[symmetric]])
    fix x assume "x \<in> set xs"
    with JArr show "(hole_to_null \<circ> json_roundtrip) x = x"
      by (cases "x = JUndefined") (auto simp: hole_to_null_def)
  qed
  then show ?case by simp
next
  case (JObj kvs)
  have *: "\<And>p. p \<in> set kvs \<Longrightarrow> map_prod id json_roundtrip p = p"
  proof -
    fix p assume p: "p \<in> set kvs"
    obtain k v where kv: "p = (k, v)" by (cases p)
    from JObj.IH[of p v] JObj.prems p kv show "map_prod id json_roundtrip p = p"
      by auto
  qed
  have "map (map_prod id json_roundtrip) kvs = kvs"
    by (rule map_idI) (rule *)
  moreover have "filter (\<lambda>p. snd p \<noteq> JUndefined) kvs = kvs"
    using JObj.prems by (auto intro!: filter_True)
  ultimately show ?case by simp
qed simp_all

subsection \<open>Serialisation\<close>

lemma obj_roundtrip_defined: "obj_defined ob \<Longrightarrow> obj_roundtrip ob = ob"
  using json_roundtrip_defined[of "JObj ob"] by (simp add: obj_defined_def obj_roundtrip_def)

lemma map_obj_roundtrip_defined: "list_all obj_defined xs \<Longrightarrow> map obj_roundtrip xs = xs"
  by (induction xs) (simp_all add: obj_roundtrip_defined)

text \<open>What serialisation returns is a value that JSON has as it is: a file or a snapshot that
  the server wrote holds nothing else.\<close>

lemma json_roundtrip_is_defined:
  "finite_numbers v \<Longrightarrow> v \<noteq> JUndefined \<Longrightarrow> defined (json_roundtrip v)"
proof (induction v)
  case (JArr xs)
  have "defined (hole_to_null (json_roundtrip x))" if "x \<in> set xs" for x
  proof (cases "x = JUndefined")
    case True
    then show ?thesis by (simp add: hole_to_null_def)
  next
    case False
    with JArr that have "defined (json_roundtrip x)" by simp
    moreover from False have "json_roundtrip x \<noteq> JUndefined"
      by (simp add: json_roundtrip_undefined)
    ultimately show ?thesis by (simp add: hole_to_null_def)
  qed
  then show ?case by simp
next
  case (JObj kvs)
  have "defined (json_roundtrip (snd p))"
    if "p \<in> set kvs" and "json_roundtrip (snd p) \<noteq> JUndefined" for p
  proof -
    obtain k v where kv: "p = (k, v)" by (cases p)
    from that(2) kv have "v \<noteq> JUndefined" by auto
    moreover from JObj.prems that(1) kv have "finite_numbers v" by auto
    ultimately show ?thesis using JObj.IH[of p v] that(1) kv by auto
  qed
  then show ?case by auto
qed (simp_all add: in_double_range_def)

lemma obj_roundtrip_is_defined:
  "\<forall>p \<in> set ob. finite_numbers (snd p) \<Longrightarrow> obj_defined (obj_roundtrip ob)"
  using json_roundtrip_is_defined[of "JObj ob"] by (simp add: obj_defined_def obj_roundtrip_def)

lemma in_double_range_small: "\<bar>n\<bar> < 2 ^ 53 \<Longrightarrow> in_double_range n"
proof -
  assume "\<bar>n\<bar> < 2 ^ 53"
  moreover have "(2::int) ^ 53 \<le> 2 ^ 1024" by (rule power_increasing) simp_all
  ultimately show ?thesis by (simp add: in_double_range_def)
qed


section \<open>The evaluated inputs\<close>

lemma one_article_world_mem:
  "mem one_article_world =
    init_store\<lparr>articles := [new_article (env_at 1000) (short_form ''A'' ''C'') None]\<rparr>"
  by (simp add: one_article_world_def post_article_def short_form_def fresh_world_def saved_def
      init_store_def Let_def)

lemma example_world_mem:
  "mem example_world =
    init_store\<lparr>articles := [new_article (env_at 1000) (short_form ''A'' ''C'') None],
      pushSubscriptions := [[(''endpoint'', JStr ''https://push.example/1''),
         (''keys'', JObj [(''p256dh'', JStr ''k''), (''auth'', JStr ''a'')])]]\<rparr>"
  by (simp add: example_world_def post_push_subscribe_def one_article_world_mem subscription_def
      init_store_def Let_def)


section \<open>Loading and saving the snapshot\<close>

text \<open>
  Claim C6.  When the load fails because nothing is stored under the \<open>public_id\<close> of the
  snapshot, or because what is stored there does not parse, no variable is assigned: the
  store is the one the load started from, which at the start of the server is the initial
  one.  The outcome is the log line \<open>No existing data found, starting fresh\<close>, and the
  server goes on to listen.  This holds for both in-memory servers, whatever the network
  does.
\<close>

theorem load_failure_keeps_defaults:
  "(no_snapshot c DATABASE_ID \<longrightarrow>
      loadDataFromCloudinary nt c s = (No_existing_data, s) \<and>
      start_server nt c = (No_existing_data, \<lparr>mem = init_store, cloud = c\<rparr>)) \<and>
   (no_snapshot c DATABASE_ID_v1 \<longrightarrow>
      loadDataFromCloudinary_v1 nt c s = (No_existing_data, s) \<and>
      start_server_v1 nt c = (No_existing_data, \<lparr>mem = init_store, cloud = c\<rparr>))"
proof -
  have a: "loadDataFromCloudinary nt c s' = (No_existing_data, s')"
    if "no_snapshot c DATABASE_ID" for s'
    using that by (auto simp: no_snapshot_def loadDataFromCloudinary_def)
  have b: "loadDataFromCloudinary_v1 nt c s' = (No_existing_data, s')"
    if "no_snapshot c DATABASE_ID_v1" for s'
    using that by (auto simp: no_snapshot_def loadDataFromCloudinary_v1_def)
  show ?thesis
    by (simp add: a b start_server_def start_server_v1_def)
qed

theorem load_failure_keeps_defaults_witness:
  "no_snapshot empty_cloud DATABASE_ID \<and>
   no_snapshot (empty_cloud(DATABASE_ID_v1 \<mapsto> Not_json)) DATABASE_ID_v1 \<and>
   start_server net_up empty_cloud = (No_existing_data, fresh_world) \<and>
   mem (snd (start_server_v1 net_up (empty_cloud(DATABASE_ID_v1 \<mapsto> Not_json)))) = init_store"
proof -
  have h1: "no_snapshot empty_cloud DATABASE_ID"
    by (simp add: no_snapshot_def empty_cloud_def)
  have h2: "no_snapshot (empty_cloud(DATABASE_ID_v1 \<mapsto> Not_json)) DATABASE_ID_v1"
    by (simp add: no_snapshot_def)
  from h1 h2
    load_failure_keeps_defaults[of empty_cloud net_up init_store]
    load_failure_keeps_defaults[of "empty_cloud(DATABASE_ID_v1 \<mapsto> Not_json)" net_up init_store]
  show ?thesis by (simp add: fresh_world_def)
qed




section \<open>Lists\<close>

lemma find_findIndex: "find P xs = map_option (\<lambda>i. xs ! i) (findIndex P xs)"
  by (induction xs) (auto simp: option.map_comp comp_def)

lemma findIndex_split:
  assumes "findIndex P xs = Some i"
  shows "filter P (take i xs) = []" and "xs = take i xs @ xs ! i # drop (Suc i) xs" and "P (xs ! i)"
proof -
  from findIndex_Some[OF assms] have i: "i < length xs" "P (xs ! i)" "\<forall>j<i. \<not> P (xs ! j)"
    by auto
  show "P (xs ! i)" by fact
  show "xs = take i xs @ xs ! i # drop (Suc i) xs"
    using i(1) by (simp add: id_take_nth_drop[symmetric])
  have "\<forall>x \<in> set (take i xs). \<not> P x"
  proof
    fix x assume "x \<in> set (take i xs)"
    then obtain j where "j < length (take i xs)" "x = take i xs ! j"
      by (auto simp: in_set_conv_nth)
    with i show "\<not> P x" by auto
  qed
  then show "filter P (take i xs) = []"
    by (simp add: filter_empty_conv)
qed

lemma splice1_removes_only_match:
  assumes "findIndex P xs = Some i" and "length (filter P xs) \<le> 1"
  shows "\<forall>x \<in> set (splice1 i xs). \<not> P x"
proof -
  note s = findIndex_split[OF assms(1)]
  have "filter P xs = filter P (take i xs) @ filter P (xs ! i # drop (Suc i) xs)"
    by (subst s(2)) (simp only: filter_append)
  then have "filter P xs = xs ! i # filter P (drop (Suc i) xs)"
    by (simp add: s(1) s(3))
  with assms(2) have "filter P (drop (Suc i) xs) = []" by simp
  with s(1) have "filter P (splice1 i xs) = []" by (simp add: splice1_def)
  then show ?thesis by (simp add: filter_empty_conv)
qed

lemma length_splice1: "i < length xs \<Longrightarrow> length (splice1 i xs) = length xs - 1"
  by (auto simp: splice1_def)

lemma no_match_filter: "(\<forall>x \<in> set xs. \<not> P x) \<Longrightarrow> length (filter P xs) \<le> 1"
  by (simp add: filter_empty_conv[THEN iffD2])

section \<open>Articles\<close>

lemma get_article_missing:
  "\<forall>a \<in> set (articles (mem w)). \<not> eqv (get_prop a ''id'') rid \<Longrightarrow>
   get_article eqv rid w = Response 404 (error_body ''Article not found'')"
  by (simp add: get_article_def find_findIndex findIndex_None[THEN iffD2])

lemma delete_article_missing:
  "\<forall>a \<in> set (articles (mem w)). \<not> eqv (get_prop a ''id'') rid \<Longrightarrow>
   delete_article eqv e rid w = (Response 404 (error_body ''Article not found''), w)"
  by (simp add: delete_article_def findIndex_None[THEN iffD2])

lemma delete_article_clears:
  assumes "length (filter (\<lambda>a. eqv (get_prop a ''id'') rid) (articles (mem w))) \<le> 1"
  shows "\<forall>a \<in> set (articles (mem (snd (delete_article eqv e rid w)))). \<not> eqv (get_prop a ''id'') rid"
proof (cases "findIndex (\<lambda>a. eqv (get_prop a ''id'') rid) (articles (mem w))")
  case None
  then have nm: "\<forall>a \<in> set (articles (mem w)). \<not> eqv (get_prop a ''id'') rid"
    by (simp add: findIndex_None)
  then show ?thesis by (simp add: delete_article_missing)
next
  case (Some i)
  from splice1_removes_only_match[OF Some assms] Some show ?thesis
    by (simp add: delete_article_def saved_def Let_def)
qed

lemma put_article_missing:
  "\<forall>a \<in> set (articles (mem w)). \<not> eqv (get_prop a ''id'') rid \<Longrightarrow>
   put_article eqv e rid b file w = (Response 404 (error_body ''Article not found''), w)"
  by (simp add: put_article_def findIndex_None[THEN iffD2])

lemma keys_obj_roundtrip: "fst ` set (obj_roundtrip ob) \<subseteq> fst ` set ob"
  by (force simp: obj_roundtrip_def)

lemma get_prop_absent: "k \<notin> fst ` set ob \<Longrightarrow> get_prop ob k = JUndefined"
  by (simp add: get_prop_def map_of_eq_None_iff[THEN iffD2])

lemma get_prop_obj_roundtrip:
  "distinct (map fst ob) \<Longrightarrow> get_prop (obj_roundtrip ob) k = json_roundtrip (get_prop ob k)"
proof (induction ob)
  case Nil
  then show ?case by (simp add: obj_roundtrip_def get_prop_def)
next
  case (Cons p ps)
  obtain k' v where p: "p = (k', v)" by (cases p)
  have rt: "obj_roundtrip (p # ps) =
      (if json_roundtrip v = JUndefined then obj_roundtrip ps
       else (k', json_roundtrip v) # obj_roundtrip ps)"
    by (simp add: obj_roundtrip_def p)
  from Cons.prems have d: "distinct (map fst ps)" and nk: "k' \<notin> fst ` set ps"
    by (auto simp: p)
  show ?case
  proof (cases "k = k'")
    case True
    from nk keys_obj_roundtrip[of ps] have "k' \<notin> fst ` set (obj_roundtrip ps)" by blast
    then have "get_prop (obj_roundtrip ps) k' = JUndefined" by (rule get_prop_absent)
    moreover have "get_prop (p # ps) k' = v" by (simp add: p get_prop_def)
    moreover have "get_prop ((k', json_roundtrip v) # obj_roundtrip ps) k' = json_roundtrip v"
      by (simp add: get_prop_def)
    ultimately show ?thesis using True by (simp add: rt)
  next
    case False
    then have "get_prop (p # ps) k = get_prop ps k" by (simp add: p get_prop_def)
    moreover have "get_prop ((k', json_roundtrip v) # obj_roundtrip ps) k
        = get_prop (obj_roundtrip ps) k"
      using False by (simp add: get_prop_def)
    ultimately show ?thesis using Cons.IH[OF d] by (simp add: rt)
  qed
qed

lemma read_after_write_articles:
  "write_ok e \<Longrightarrow> readJSON_articles (writeJSON_articles e d fs) = map obj_roundtrip d"
  by (simp add: readJSON_articles_def writeJSON_articles_def)

lemma file_get_article_missing:
  "\<forall>a \<in> set (readJSON_articles fs). \<not> id_is pint rid a \<Longrightarrow>
   file_get_article pint rid fs = Response 404 (error_body ''Article not found'')"
  by (simp add: file_get_article_def find_findIndex findIndex_None[THEN iffD2])

lemma file_delete_article_missing:
  "\<forall>a \<in> set (readJSON_articles fs). \<not> id_is pint rid a \<Longrightarrow>
   file_delete_article pint e rid fs = (Response 404 (error_body ''Article not found''), fs)"
  by (simp add: file_delete_article_def findIndex_None[THEN iffD2])

lemma file_put_article_missing:
  "\<forall>a \<in> set (readJSON_articles fs). \<not> id_is pint rid a \<Longrightarrow>
   file_put_article pint e rid b file fs = (Response 404 (error_body ''Article not found''), fs)"
  by (simp add: file_put_article_def findIndex_None[THEN iffD2])

lemma list_all_splice1: "list_all P xs \<Longrightarrow> list_all P (splice1 i xs)"
  by (auto simp: splice1_def list_all_iff dest: in_set_takeD in_set_dropD)

lemma file_delete_article_clears:
  assumes "write_ok e" and "list_all obj_defined (readJSON_articles fs)"
    and "length (filter (id_is pint rid) (readJSON_articles fs)) \<le> 1"
  shows "\<forall>a \<in> set (readJSON_articles (snd (file_delete_article pint e rid fs))). \<not> id_is pint rid a"
proof (cases "findIndex (id_is pint rid) (readJSON_articles fs)")
  case None
  then have nm: "\<forall>a \<in> set (readJSON_articles fs). \<not> id_is pint rid a"
    by (simp add: findIndex_None)
  then show ?thesis by (simp add: file_delete_article_missing)
next
  case (Some i)
  have "map obj_roundtrip (splice1 i (readJSON_articles fs)) = splice1 i (readJSON_articles fs)"
    by (rule map_obj_roundtrip_defined) (rule list_all_splice1[OF assms(2)])
  with splice1_removes_only_match[OF Some assms(3)] Some assms(1) show ?thesis
    by (simp add: file_delete_article_def read_after_write_articles Let_def)
qed

lemma env_at_simps [simp]:
  "date_now (env_at t) = t" "session_now (env_at t) = t" "upload_ok (env_at t)" "write_ok (env_at t)"
  "date_iso (env_at t) = ''2024-01-01T00:00:00.000Z''"
  by (simp_all add: env_at_def)

lemma twin_world_mem:
  "mem twin_world =
    init_store\<lparr>articles := [new_article (env_at 1000) (short_form ''A'' ''C'') None,
                              new_article (env_at 1000) (short_form ''B'' ''C'') None]\<rparr>"
  by (simp add: twin_world_def post_article_def short_form_def one_article_world_mem saved_def
      init_store_def Let_def)

lemma one_article_files_articles:
  "readJSON_articles one_article_files =
     [obj_roundtrip (file_new_article (env_at 1000) (short_form ''A'' ''C'') None)]"
  by (simp add: one_article_files_def file_post_article_def Let_def read_after_write_articles)
     (simp add: readJSON_articles_def init_files_def)

lemma eval_A: "obj_roundtrip (file_new_article (env_at 1000) (short_form ''A'' ''C'') None) =
   [(''id'', JNum 1000), (''title'', JStr ''A''), (''category'', JStr ''C''),
       (''pdfName'', JStr []), (''pdfFile'', JBool False),
       (''createdAt'', JStr ''2024-01-01T00:00:00.000Z'')]"
  by (simp add: file_new_article_def short_form_def env_at_def obj_roundtrip_def)

lemma find_append_no_match: "\<forall>x \<in> set xs. \<not> P x \<Longrightarrow> find P (xs @ ys) = find P ys"
  by (induction xs) auto

lemma new_article_fields:
  "get_prop (new_article e b file) ''id'' = JNum (date_now e)"
  "get_prop (new_article e b file) ''title'' = title b"
  "get_prop (new_article e b file) ''category'' = category b"
  "get_prop (new_article e b file) ''description'' = description b"
  "get_prop (new_article e b file) ''authors'' = authors b"
  "get_prop (new_article e b file) ''institution'' = institution b"
  "get_prop (new_article e b file) ''publicationDate'' = publicationDate b"
  by (simp_all add: new_article_def get_prop_def)

lemma file_new_article_fields:
  "get_prop (obj_roundtrip (file_new_article e b file)) ''id'' = JNum (date_now e)"
  "get_prop (obj_roundtrip (file_new_article e b file)) ''title'' = json_roundtrip (title b)"
  "get_prop (obj_roundtrip (file_new_article e b file)) ''category'' = json_roundtrip (category b)"
  "get_prop (obj_roundtrip (file_new_article e b file)) ''description''
     = json_roundtrip (description b)"
  "get_prop (obj_roundtrip (file_new_article e b file)) ''authors'' = json_roundtrip (authors b)"
  "get_prop (obj_roundtrip (file_new_article e b file)) ''institution''
     = json_roundtrip (institution b)"
  "get_prop (obj_roundtrip (file_new_article e b file)) ''publicationDate''
     = json_roundtrip (publicationDate b)"
proof -
  have d: "distinct (map fst (file_new_article e b file))"
    by (simp add: file_new_article_def)
  show "get_prop (obj_roundtrip (file_new_article e b file)) ''id'' = JNum (date_now e)"
    "get_prop (obj_roundtrip (file_new_article e b file)) ''title'' = json_roundtrip (title b)"
    "get_prop (obj_roundtrip (file_new_article e b file)) ''category'' = json_roundtrip (category b)"
    "get_prop (obj_roundtrip (file_new_article e b file)) ''description''
       = json_roundtrip (description b)"
    "get_prop (obj_roundtrip (file_new_article e b file)) ''authors'' = json_roundtrip (authors b)"
    "get_prop (obj_roundtrip (file_new_article e b file)) ''institution''
       = json_roundtrip (institution b)"
    "get_prop (obj_roundtrip (file_new_article e b file)) ''publicationDate''
       = json_roundtrip (publicationDate b)"
    by (simp_all add: get_prop_obj_roundtrip[OF d]) (simp_all add: file_new_article_def get_prop_def)
qed

lemma post_article_accepted:
  "truthy (title b) \<Longrightarrow> truthy (category b) \<Longrightarrow>
   post_article e b file w =
     (Response 200 (JObj (new_article e b file)),
      saved e ((mem w)\<lparr>articles := articles (mem w) @ [new_article e b file]\<rparr>) (cloud w))"
  by (simp add: post_article_def Let_def)

lemma post_then_get:
  assumes "truthy (title b)" and "truthy (category b)" and "eqv (JNum (date_now e)) rid"
    and "\<forall>a \<in> set (articles (mem w)). \<not> eqv (get_prop a ''id'') rid"
  shows "get_article eqv rid (snd (post_article e b file w)) = Response 200 (JObj (new_article e b file))"
proof -
  have "find (\<lambda>a. eqv (get_prop a ''id'') rid) (articles (mem w) @ [new_article e b file])
      = Some (new_article e b file)"
    using assms(3,4) by (simp add: find_append_no_match new_article_fields)
  then show ?thesis
    by (simp add: post_article_accepted[OF assms(1,2)] get_article_def saved_def)
qed

lemma file_post_then_get:
  assumes "write_ok e" and "pint rid = Some (date_now e)"
    and "list_all obj_defined (readJSON_articles fs)"
    and "\<forall>a \<in> set (readJSON_articles fs). \<not> id_is pint rid a"
  shows "file_get_article pint rid (snd (file_post_article e b file fs))
    = Response 200 (JObj (obj_roundtrip (file_new_article e b file)))"
proof -
  have rd: "readJSON_articles (snd (file_post_article e b file fs))
      = readJSON_articles fs @ [obj_roundtrip (file_new_article e b file)]"
    using assms(1,3)
    by (simp add: file_post_article_def Let_def read_after_write_articles map_obj_roundtrip_defined)
  have "id_is pint rid (obj_roundtrip (file_new_article e b file))"
    using assms(2) by (simp add: id_is_def file_new_article_fields)
  with assms(4) have "find (id_is pint rid)
      (readJSON_articles fs @ [obj_roundtrip (file_new_article e b file)])
      = Some (obj_roundtrip (file_new_article e b file))"
    by (simp add: find_append_no_match)
  then show ?thesis by (simp add: file_get_article_def rd)
qed

text \<open>
  Claim C5.  When no article of the collection carries the id of the route (the test the
  handler itself makes), \<open>PUT /articles/:id\<close> answers 404 \<open>Article not found\<close> and leaves
  everything as it was: the variables and the cloud on the in-memory server, the files on
  the server on JSON files.  In particular the articles, and their number, are unchanged.
\<close>

theorem update_of_missing_id:
  "((\<forall>a \<in> set (articles (mem w)). \<not> eqv (get_prop a ''id'') rid) \<longrightarrow>
      put_article eqv e rid b pdf w = (Response 404 (error_body ''Article not found''), w)) \<and>
   ((\<forall>a \<in> set (readJSON_articles fs). \<not> id_is pint rid a) \<longrightarrow>
      file_put_article pint e rid b pdf fs = (Response 404 (error_body ''Article not found''), fs))"
  using put_article_missing file_put_article_missing
  by blast

theorem update_of_missing_id_witness:
  "put_article eq_decimal (env_at 2000) ''7'' (short_form ''X'' ''Y'') None one_article_world
     = (Response 404 (error_body ''Article not found''), one_article_world) \<and>
   length (articles (mem one_article_world)) = 1 \<and>
   file_put_article decimal (env_at 2000) ''7'' (short_form ''X'' ''Y'') None one_article_files
     = (Response 404 (error_body ''Article not found''), one_article_files) \<and>
   length (readJSON_articles one_article_files) = 1"
proof -
  have h1: "\<forall>a \<in> set (articles (mem one_article_world)). \<not> eq_decimal (get_prop a ''id'') ''7''"
    by (simp add: one_article_world_mem new_article_def get_prop_def decimal_def digit_of_def)
  have h2: "\<forall>a \<in> set (readJSON_articles one_article_files). \<not> id_is decimal ''7'' a"
    by (simp add: one_article_files_articles eval_A id_is_def get_prop_def decimal_def digit_of_def)
  from h1 h2
    update_of_missing_id[where w = one_article_world and eqv = eq_decimal and rid = "''7''"
      and fs = one_article_files and pint = decimal and e = "env_at 2000"
      and b = "short_form ''X'' ''Y''" and pdf = None]
  show ?thesis by (simp add: one_article_world_mem one_article_files_articles)
qed

text \<open>
  Claim C3, as the code has it.  \<open>DELETE /articles/:id\<close> removes the first article that
  carries the id.  When at most one article carries it, none does afterwards:
  \<open>GET /articles/:id\<close> answers 404 \<open>Article not found\<close>, and a second delete answers the
  same 404, throws nothing and changes nothing.  On the server on JSON files this needs the
  write of the file to go through, and the file to hold parsed JSON.
\<close>

theorem delete_then_get:
  "(length (filter (\<lambda>a. eqv (get_prop a ''id'') rid) (articles (mem w))) \<le> 1 \<longrightarrow>
      get_article eqv rid (snd (delete_article eqv e rid w))
        = Response 404 (error_body ''Article not found'') \<and>
      delete_article eqv e' rid (snd (delete_article eqv e rid w))
        = (Response 404 (error_body ''Article not found''), snd (delete_article eqv e rid w))) \<and>
   (write_ok e \<and> list_all obj_defined (readJSON_articles fs) \<and>
    length (filter (id_is pint rid) (readJSON_articles fs)) \<le> 1 \<longrightarrow>
      file_get_article pint rid (snd (file_delete_article pint e rid fs))
        = Response 404 (error_body ''Article not found'') \<and>
      file_delete_article pint e' rid (snd (file_delete_article pint e rid fs))
        = (Response 404 (error_body ''Article not found''), snd (file_delete_article pint e rid fs)))"
proof (intro conjI impI)
  assume "length (filter (\<lambda>a. eqv (get_prop a ''id'') rid) (articles (mem w))) \<le> 1"
  then have c: "\<forall>a \<in> set (articles (mem (snd (delete_article eqv e rid w)))).
      \<not> eqv (get_prop a ''id'') rid"
    by (rule delete_article_clears)
  from c show "get_article eqv rid (snd (delete_article eqv e rid w))
        = Response 404 (error_body ''Article not found'')"
    by (rule get_article_missing)
  from c show "delete_article eqv e' rid (snd (delete_article eqv e rid w))
        = (Response 404 (error_body ''Article not found''), snd (delete_article eqv e rid w))"
    by (rule delete_article_missing)
next
  assume h: "write_ok e \<and> list_all obj_defined (readJSON_articles fs) \<and>
    length (filter (id_is pint rid) (readJSON_articles fs)) \<le> 1"
  then have c: "\<forall>a \<in> set (readJSON_articles (snd (file_delete_article pint e rid fs))).
      \<not> id_is pint rid a"
    by (intro file_delete_article_clears) simp_all
  from c show "file_get_article pint rid (snd (file_delete_article pint e rid fs))
        = Response 404 (error_body ''Article not found'')"
    by (rule file_get_article_missing)
  from c show "file_delete_article pint e' rid (snd (file_delete_article pint e rid fs))
        = (Response 404 (error_body ''Article not found''), snd (file_delete_article pint e rid fs))"
    by (rule file_delete_article_missing)
qed

theorem delete_then_get_witness:
  "length (filter (\<lambda>a. eq_decimal (get_prop a ''id'') ''1000'') (articles (mem one_article_world))) = 1 \<and>
   get_article eq_decimal ''1000'' (snd (delete_article eq_decimal (env_at 3000) ''1000'' one_article_world))
     = Response 404 (error_body ''Article not found'') \<and>
   fst (delete_article eq_decimal (env_at 4000) ''1000''
         (snd (delete_article eq_decimal (env_at 3000) ''1000'' one_article_world)))
     = Response 404 (error_body ''Article not found'') \<and>
   length (filter (id_is decimal ''1000'') (readJSON_articles one_article_files)) = 1 \<and>
   file_get_article decimal ''1000'' (snd (file_delete_article decimal (env_at 3000) ''1000'' one_article_files))
     = Response 404 (error_body ''Article not found'')"
proof -
  have h1: "length (filter (\<lambda>a. eq_decimal (get_prop a ''id'') ''1000'')
      (articles (mem one_article_world))) = 1"
    by (simp add: one_article_world_mem new_article_def get_prop_def decimal_def digit_of_def)
  have h2: "length (filter (id_is decimal ''1000'') (readJSON_articles one_article_files)) = 1"
    by (simp add: one_article_files_articles eval_A id_is_def get_prop_def decimal_def digit_of_def)
  have h3: "list_all obj_defined (readJSON_articles one_article_files)"
    by (simp add: one_article_files_articles eval_A obj_defined_def in_double_range_small)
  from h1 h2 h3
    delete_then_get[where w = one_article_world and eqv = eq_decimal and rid = "''1000''"
      and fs = one_article_files and pint = decimal and e = "env_at 3000" and e' = "env_at 4000"]
  show ?thesis by simp
qed

text \<open>The claim as it is stated fails when two articles carry the same id, as the two
  articles posted at the same clock reading 1000 do: the delete of \<open>1000\<close> answers 200,
  and the lookup of \<open>1000\<close> that follows still answers 200, with the second article.\<close>

theorem delete_then_get_counterexample:
  "fst (delete_article eq_decimal (env_at 3000) ''1000'' twin_world)
     = Response 200 (message_body ''Article deleted successfully'') \<and>
   get_article eq_decimal ''1000'' (snd (delete_article eq_decimal (env_at 3000) ''1000'' twin_world))
     = Response 200 (JObj (new_article (env_at 1000) (short_form ''B'' ''C'') None))"
  by (simp add: get_article_def delete_article_def twin_world_mem new_article_def
      get_prop_def decimal_def digit_of_def splice1_def saved_def init_store_def Let_def)

text \<open>
  Claim C4, as the code has it.  \<open>POST /articles\<close> with a title and a category answers with
  the record it appended: the six fields of the form, the id \<open>Date.now()\<close>, the three PDF
  fields and the creation time.  When the route parameter denotes that id and no article
  that was already there carries it, \<open>GET /articles/:id\<close> answers with the same record.  On
  the server on JSON files (which asks for no title or category) the record comes back as
  the file holds it, that is, as JSON serialisation reproduces it, provided the write went
  through and the file held parsed JSON.
\<close>

theorem insert_then_get:
  "(truthy (title b) \<and> truthy (category b) \<and> eqv (JNum (date_now e)) rid \<and>
    (\<forall>a \<in> set (articles (mem w)). \<not> eqv (get_prop a ''id'') rid) \<longrightarrow>
      fst (post_article e b pdf w) = Response 200 (JObj (new_article e b pdf)) \<and>
      get_article eqv rid (snd (post_article e b pdf w))
        = Response 200 (JObj (new_article e b pdf)) \<and>
      get_prop (new_article e b pdf) ''id'' = JNum (date_now e) \<and>
      get_prop (new_article e b pdf) ''title'' = title b \<and>
      get_prop (new_article e b pdf) ''category'' = category b \<and>
      get_prop (new_article e b pdf) ''description'' = description b \<and>
      get_prop (new_article e b pdf) ''authors'' = authors b \<and>
      get_prop (new_article e b pdf) ''institution'' = institution b \<and>
      get_prop (new_article e b pdf) ''publicationDate'' = publicationDate b) \<and>
   (write_ok e \<and> pint rid = Some (date_now e) \<and> list_all obj_defined (readJSON_articles fs) \<and>
    (\<forall>a \<in> set (readJSON_articles fs). \<not> id_is pint rid a) \<longrightarrow>
      fst (file_post_article e b pdf fs) = Response 200 (JObj (file_new_article e b pdf)) \<and>
      file_get_article pint rid (snd (file_post_article e b pdf fs))
        = Response 200 (JObj (obj_roundtrip (file_new_article e b pdf))) \<and>
      get_prop (obj_roundtrip (file_new_article e b pdf)) ''id'' = JNum (date_now e) \<and>
      get_prop (obj_roundtrip (file_new_article e b pdf)) ''title'' = json_roundtrip (title b) \<and>
      get_prop (obj_roundtrip (file_new_article e b pdf)) ''category''
        = json_roundtrip (category b) \<and>
      get_prop (obj_roundtrip (file_new_article e b pdf)) ''description''
        = json_roundtrip (description b) \<and>
      get_prop (obj_roundtrip (file_new_article e b pdf)) ''authors''
        = json_roundtrip (authors b) \<and>
      get_prop (obj_roundtrip (file_new_article e b pdf)) ''institution''
        = json_roundtrip (institution b) \<and>
      get_prop (obj_roundtrip (file_new_article e b pdf)) ''publicationDate''
        = json_roundtrip (publicationDate b))"
proof (intro conjI impI)
  assume h: "truthy (title b) \<and> truthy (category b) \<and> eqv (JNum (date_now e)) rid \<and>
    (\<forall>a \<in> set (articles (mem w)). \<not> eqv (get_prop a ''id'') rid)"
  then show "fst (post_article e b pdf w) = Response 200 (JObj (new_article e b pdf))"
    by (simp add: post_article_accepted)
  from h show "get_article eqv rid (snd (post_article e b pdf w))
        = Response 200 (JObj (new_article e b pdf))"
    by (intro post_then_get) simp_all
next
  assume h: "write_ok e \<and> pint rid = Some (date_now e) \<and>
    list_all obj_defined (readJSON_articles fs) \<and>
    (\<forall>a \<in> set (readJSON_articles fs). \<not> id_is pint rid a)"
  show "fst (file_post_article e b pdf fs) = Response 200 (JObj (file_new_article e b pdf))"
    by (simp add: file_post_article_def Let_def)
  from h show "file_get_article pint rid (snd (file_post_article e b pdf fs))
        = Response 200 (JObj (obj_roundtrip (file_new_article e b pdf)))"
    by (intro file_post_then_get) simp_all
qed (simp_all only: new_article_fields file_new_article_fields)

theorem insert_then_get_witness:
  "get_article eq_decimal ''1000'' (snd (post_article (env_at 1000) (short_form ''A'' ''C'') None fresh_world))
     = Response 200 (JObj (new_article (env_at 1000) (short_form ''A'' ''C'') None)) \<and>
   get_prop (new_article (env_at 1000) (short_form ''A'' ''C'') None) ''title'' = JStr ''A'' \<and>
   file_get_article decimal ''1000''
       (snd (file_post_article (env_at 1000) (short_form ''A'' ''C'') None init_files))
     = Response 200 (JObj (obj_roundtrip (file_new_article (env_at 1000) (short_form ''A'' ''C'') None)))"
proof -
  have h1: "truthy (title (short_form ''A'' ''C'')) \<and> truthy (category (short_form ''A'' ''C'')) \<and>
      eq_decimal (JNum (date_now (env_at 1000))) ''1000'' \<and>
      (\<forall>a \<in> set (articles (mem fresh_world)). \<not> eq_decimal (get_prop a ''id'') ''1000'')"
    by (simp add: short_form_def fresh_world_def init_store_def decimal_def digit_of_def)
  have h2: "write_ok (env_at 1000) \<and> decimal ''1000'' = Some (date_now (env_at 1000)) \<and>
      list_all obj_defined (readJSON_articles init_files) \<and>
      (\<forall>a \<in> set (readJSON_articles init_files). \<not> id_is decimal ''1000'' a)"
    by (simp add: readJSON_articles_def init_files_def decimal_def digit_of_def)
  from h1 h2
    insert_then_get[where w = fresh_world and eqv = eq_decimal and rid = "''1000''"
      and fs = init_files and pint = decimal and e = "env_at 1000"
      and b = "short_form ''A'' ''C''" and pdf = None]
  show ?thesis by (simp add: short_form_def)
qed

text \<open>The claim as it is stated fails when the clock reading of the insert is the id of an
  article that is already there: the second article posted at reading 1000 is appended and
  assigned the id 1000, and the lookup of \<open>1000\<close> answers with the first article.\<close>

theorem insert_then_get_counterexample:
  "fst (post_article (env_at 1000) (short_form ''B'' ''C'') None one_article_world)
     = Response 200 (JObj (new_article (env_at 1000) (short_form ''B'' ''C'') None)) \<and>
   get_prop (new_article (env_at 1000) (short_form ''B'' ''C'') None) ''id'' = JNum 1000 \<and>
   get_article eq_decimal ''1000''
       (snd (post_article (env_at 1000) (short_form ''B'' ''C'') None one_article_world))
     = Response 200 (JObj (new_article (env_at 1000) (short_form ''A'' ''C'') None)) \<and>
   new_article (env_at 1000) (short_form ''A'' ''C'') None
     \<noteq> new_article (env_at 1000) (short_form ''B'' ''C'') None"
  by (simp add: get_article_def post_article_def one_article_world_mem new_article_def
      short_form_def get_prop_def decimal_def digit_of_def saved_def init_store_def Let_def)

section \<open>Configuration\<close>

text \<open>On the in-memory server \<open>POST /config\<close> merges: a key that the payload does not
  supply keeps its value, a key that it supplies takes the payload's value, and no key
  disappears.\<close>

lemma post_config_merges:
  "(k \<notin> fst ` set b \<longrightarrow>
      get_prop (config (mem (snd (post_config e b w)))) k = get_prop (config (mem w)) k) \<and>
   (k \<in> fst ` set b \<and> distinct (map fst b) \<longrightarrow>
      get_prop (config (mem (snd (post_config e b w)))) k = get_prop b k) \<and>
   fst ` set (config (mem (snd (post_config e b w)))) = fst ` set (config (mem w)) \<union> fst ` set b \<and>
   fst (post_config e b w) = Response 200 (JObj (config (mem (snd (post_config e b w)))))"
  by (simp add: post_config_def saved_def Let_def spread_other spread_supplied
      get_prop_rev_distinct keys_spread)

text \<open>
  Claim C2 on the server on JSON files.  \<open>POST /config\<close> writes the payload as the whole
  configuration.  After the first start the file holds the defaults, with
  \<open>primary_color\<close> \<open>#0D7377\<close>; after \<open>POST /config\<close> with \<open>{ app_title: "X" }\<close> the
  file holds \<open>{ app_title: "X" }\<close> alone and \<open>primary_color\<close> is gone.  The in-memory
  server keeps it on the same payload.
\<close>

theorem file_post_config_replaces:
  "get_prop (readJSON_config init_files) ''primary_color'' = JStr ''#0D7377'' \<and>
   file_post_config (env_at 2000) [(''app_title'', JStr ''X'')] init_files
     = (Response 200 (JObj [(''app_title'', JStr ''X'')]),
        init_files\<lparr>CONFIG_FILE := Some [(''app_title'', JStr ''X'')]\<rparr>) \<and>
   get_prop (readJSON_config (snd (file_post_config (env_at 2000) [(''app_title'', JStr ''X'')] init_files)))
       ''primary_color'' = JUndefined \<and>
   get_prop (config (mem (snd (post_config (env_at 2000) [(''app_title'', JStr ''X'')] fresh_world))))
       ''primary_color'' = JStr ''#0D7377''"
  by (simp add: file_post_config_def writeJSON_config_def readJSON_config_def init_files_def
      file_default_config_def obj_roundtrip_def get_prop_def post_config_def saved_def
      fresh_world_def init_store_def default_config_def spread_def Let_def)

section \<open>Understanding materials\<close>





section \<open>Push subscriptions\<close>

text \<open>
  Claim C10.  When a stored subscription has the endpoint of the request (the handler
  compares with \<open>===\<close>), \<open>POST /push/subscribe\<close> adds nothing, changes nothing and
  answers 200 \<open>Subscribed successfully\<close>.  So for an endpoint that is a text (or any other
  primitive value), a second subscription with the same endpoint, whatever its keys, leaves
  the server as the first one left it.  Both in-memory servers have this handler.
\<close>

theorem subscribe_existing_endpoint:
  "(find (\<lambda>s. strict_eq (get_prop s ''endpoint'') (endpoint b)) (pushSubscriptions (mem w)) \<noteq> None
      \<longrightarrow> post_push_subscribe b w = (Response 200 (message_body ''Subscribed successfully''), w) \<and>
          post_push_subscribe_v1 b w = (Response 200 (message_body ''Subscribed successfully''), w)) \<and>
   (strict_eq (endpoint b) (endpoint b) \<and> endpoint b' = endpoint b
      \<longrightarrow> post_push_subscribe b' (snd (post_push_subscribe b w))
            = (Response 200 (message_body ''Subscribed successfully''), snd (post_push_subscribe b w)) \<and>
          post_push_subscribe_v1 b' (snd (post_push_subscribe_v1 b w))
            = (Response 200 (message_body ''Subscribed successfully''),
               snd (post_push_subscribe_v1 b w)))"
proof -
  let ?P = "\<lambda>b s. strict_eq (get_prop s ''endpoint'') (endpoint b)"
  have a: "post_push_subscribe b w = (Response 200 (message_body ''Subscribed successfully''), w)"
    "post_push_subscribe_v1 b w = (Response 200 (message_body ''Subscribed successfully''), w)"
    if "find (?P b) (pushSubscriptions (mem w)) \<noteq> None" for b w
    using that by (simp_all add: post_push_subscribe_def post_push_subscribe_v1_def)
  have p: "find (?P b') (pushSubscriptions (mem (snd (post_push_subscribe b w)))) \<noteq> None"
    "find (?P b') (pushSubscriptions (mem (snd (post_push_subscribe_v1 b w)))) \<noteq> None"
    if "strict_eq (endpoint b) (endpoint b)" and "endpoint b' = endpoint b"
  proof -
    have "?P b' [(''endpoint'', endpoint b), (''keys'', keys b)]"
      using that by (simp add: get_prop_def)
    then have "find (?P b') (xs @ [[(''endpoint'', endpoint b), (''keys'', keys b)]]) \<noteq> None" for xs
      by (auto simp: find_None_iff)
    moreover have "?P b' = ?P b" using that(2) by simp
    ultimately show "find (?P b') (pushSubscriptions (mem (snd (post_push_subscribe b w)))) \<noteq> None"
      "find (?P b') (pushSubscriptions (mem (snd (post_push_subscribe_v1 b w)))) \<noteq> None"
      by (simp_all add: post_push_subscribe_def post_push_subscribe_v1_def)
  qed
  show ?thesis
    using a p by blast
qed

theorem subscribe_existing_endpoint_witness:
  "length (pushSubscriptions (mem example_world)) = 1 \<and>
   post_push_subscribe (subscription ''https://push.example/1'') example_world
     = (Response 200 (message_body ''Subscribed successfully''), example_world) \<and>
   post_push_subscribe_v1 (subscription ''https://push.example/1'') example_world
     = (Response 200 (message_body ''Subscribed successfully''), example_world) \<and>
   strict_eq (endpoint (subscription ''e'')) (endpoint (subscription ''e'')) \<and>
   snd (post_push_subscribe \<lparr>endpoint = JStr ''e'', keys = JNull\<rparr>
          (snd (post_push_subscribe (subscription ''e'') fresh_world)))
     = snd (post_push_subscribe (subscription ''e'') fresh_world)"
proof -
  have h1: "find (\<lambda>s. strict_eq (get_prop s ''endpoint'')
        (endpoint (subscription ''https://push.example/1'')))
      (pushSubscriptions (mem example_world)) \<noteq> None"
    by (simp add: example_world_mem subscription_def get_prop_def)
  have h2: "strict_eq (endpoint (subscription ''e'')) (endpoint (subscription ''e'')) \<and>
      endpoint \<lparr>endpoint = JStr ''e'', keys = JNull\<rparr> = endpoint (subscription ''e'')"
    by (simp add: subscription_def)
  from h1 h2
    subscribe_existing_endpoint[where b = "subscription ''https://push.example/1''"
      and w = example_world]
    subscribe_existing_endpoint[where b = "subscription ''e''" and w = fresh_world
      and b' = "\<lparr>endpoint = JStr ''e'', keys = JNull\<rparr>"]
  show ?thesis by (simp add: example_world_mem)
qed

section \<open>Passwords in responses\<close>

lemma error_body_hides: "\<not> shows_password (error_body msg)"
  by (simp add: shows_password_def has_property_def error_body_def get_prop_def)

lemma session_body_hides: "\<not> shows_password (session_body e u)"
  by (simp add: shows_password_def has_property_def session_body_def get_prop_def without_key)

lemma get_users_hides: "\<not> shows_password (body (get_users w))"
  by (simp add: shows_password_def has_property_def get_users_def without_key)

lemma register_outcome:
  "(\<exists>msg. post_auth_register lt e b w = (Response 400 (error_body msg), w)) \<or>
   post_auth_register lt e b w =
     (Response 200 (session_body e (new_user e b)),
      saved e ((mem w)\<lparr>users := users (mem w) @ [new_user e b]\<rparr>) (cloud w))"
  by (auto simp: post_auth_register_def Let_def)

lemma login_outcome:
  "(\<exists>st msg. st \<noteq> 200 \<and> post_auth_login e b w = (Response st (error_body msg), w)) \<or>
   (\<exists>u \<in> set (users (mem w)). strict_eq (get_prop u ''password'') (password b) \<and>
      post_auth_login e b w = (Response 200 (session_body e u), w))"
proof (cases "find (\<lambda>u. strict_eq (get_prop u ''email'') (email b) \<and>
                           strict_eq (get_prop u ''password'') (password b)) (users (mem w))")
  case None
  then show ?thesis by (auto simp: post_auth_login_def)
next
  case (Some u)
  then have "u \<in> set (users (mem w))" "strict_eq (get_prop u ''password'') (password b)"
    by (auto simp: find_Some_iff)
  with Some show ?thesis by (auto simp: post_auth_login_def)
qed

lemma file_register_outcome:
  "(\<exists>msg. file_post_auth_register lt e b fs = (Response 400 (error_body msg), fs)) \<or>
   file_post_auth_register lt e b fs =
     (Response 200 (session_body e (file_new_user e (readJSON_users fs) b)),
      writeJSON_users e (readJSON_users fs @ [file_new_user e (readJSON_users fs) b]) fs)"
  by (auto simp: file_post_auth_register_def Let_def)

lemma file_login_outcome:
  "(\<exists>st msg. st \<noteq> 200 \<and> file_post_auth_login e b fs = Response st (error_body msg)) \<or>
   (\<exists>u \<in> set (readJSON_users fs). strict_eq (get_prop u ''password'') (password b) \<and>
      file_post_auth_login e b fs = Response 200 (session_body e u))"
proof (cases "find (\<lambda>u. strict_eq (get_prop u ''email'') (email b) \<and>
                           strict_eq (get_prop u ''password'') (password b)) (readJSON_users fs)")
  case None
  then show ?thesis by (auto simp: file_post_auth_login_def)
next
  case (Some u)
  then have "u \<in> set (readJSON_users fs)" "strict_eq (get_prop u ''password'') (password b)"
    by (auto simp: find_Some_iff)
  with Some show ?thesis by (auto simp: file_post_auth_login_def)
qed

text \<open>
  Claim C9.  No response of \<open>POST /auth/register\<close>, \<open>POST /auth/login\<close> or
  \<open>GET /users\<close> carries a \<open>password\<close> property, on the body, on its \<open>user\<close> or on
  an element of the list: an error body is a message, and a user is answered as the rest
  of \<open>const { password, ...rest }\<close>, which keeps every other property.  The record that
  a registration stores does hold the password as it was sent, and a login succeeds against
  that stored text.  The register and login handlers of the server on JSON files answer in
  the same way.
\<close>

theorem responses_hide_password:
  "\<not> shows_password (body (fst (post_auth_register lt e b w))) \<and>
   \<not> shows_password (body (fst (post_auth_login e b w))) \<and>
   \<not> shows_password (body (get_users w)) \<and>
   \<not> shows_password (body (fst (file_post_auth_register lt e b fs))) \<and>
   \<not> shows_password (body (file_post_auth_login e b fs)) \<and>
   (status (fst (post_auth_register lt e b w)) = 200 \<longrightarrow>
      body (fst (post_auth_register lt e b w)) = session_body e (new_user e b) \<and>
      users (mem (snd (post_auth_register lt e b w))) = users (mem w) @ [new_user e b] \<and>
      get_prop (new_user e b) ''password'' = password b) \<and>
   (status (fst (post_auth_login e b w)) = 200 \<longrightarrow>
      (\<exists>u \<in> set (users (mem w)). strict_eq (get_prop u ''password'') (password b) \<and>
         body (fst (post_auth_login e b w)) = session_body e u)) \<and>
   body (get_users w) = JArr (map (\<lambda>u. JObj (without ''password'' u)) (users (mem w))) \<and>
   (k \<noteq> ''password'' \<longrightarrow> get_prop (without ''password'' u) k = get_prop u k)"
proof (intro conjI impI)
  show "\<not> shows_password (body (fst (post_auth_register lt e b w)))"
    using register_outcome[of lt e b w] by (auto simp: error_body_hides session_body_hides)
  show "\<not> shows_password (body (fst (post_auth_login e b w)))"
    using login_outcome[of e b w] by (auto simp: error_body_hides session_body_hides)
  show "\<not> shows_password (body (get_users w))"
    by (rule get_users_hides)
  show "\<not> shows_password (body (fst (file_post_auth_register lt e b fs)))"
    using file_register_outcome[of lt e b fs] by (auto simp: error_body_hides session_body_hides)
  show "\<not> shows_password (body (file_post_auth_login e b fs))"
    using file_login_outcome[of e b fs] by (auto simp: error_body_hides session_body_hides)
  show "body (get_users w) = JArr (map (\<lambda>u. JObj (without ''password'' u)) (users (mem w)))"
    by (simp add: get_users_def)
next
  assume s: "status (fst (post_auth_register lt e b w)) = 200"
  with register_outcome[of lt e b w] have r: "post_auth_register lt e b w =
     (Response 200 (session_body e (new_user e b)),
      saved e ((mem w)\<lparr>users := users (mem w) @ [new_user e b]\<rparr>) (cloud w))"
    by auto
  show "body (fst (post_auth_register lt e b w)) = session_body e (new_user e b)"
    by (simp add: r)
  show "users (mem (snd (post_auth_register lt e b w))) = users (mem w) @ [new_user e b]"
    by (simp add: r saved_def)
  show "get_prop (new_user e b) ''password'' = password b"
    by (simp add: new_user_def get_prop_def)
next
  assume "status (fst (post_auth_login e b w)) = 200"
  with login_outcome[of e b w]
  show "\<exists>u \<in> set (users (mem w)). strict_eq (get_prop u ''password'') (password b) \<and>
         body (fst (post_auth_login e b w)) = session_body e u"
    by auto
next
  assume "k \<noteq> ''password''"
  then show "get_prop (without ''password'' u) k = get_prop u k"
    by (simp add: get_prop_without)
qed

lemma alice_world_users: "users (mem alice_world) = [new_user (env_at 1000) alice]"
  by (simp add: alice_world_def post_auth_register_def alice_def fresh_world_def init_store_def
      saved_def Let_def)

theorem responses_hide_password_witness:
  "status (fst (post_auth_register lt_number (env_at 1000) alice fresh_world)) = 200 \<and>
   get_prop (hd (users (mem alice_world))) ''password'' = JStr ''secret1'' \<and>
   \<not> shows_password (body (fst (post_auth_register lt_number (env_at 1000) alice fresh_world))) \<and>
   status (fst (post_auth_login (env_at 2000) alice alice_world)) = 200 \<and>
   \<not> shows_password (body (fst (post_auth_login (env_at 2000) alice alice_world))) \<and>
   body (get_users alice_world)
     = JArr [JObj [(''id'', JNum 1000), (''name'', JStr ''Alice''),
                   (''email'', JStr ''alice@muk.ac.zm''),
                   (''createdAt'', JStr ''2024-01-01T00:00:00.000Z'')]]"
proof -
  have h1: "status (fst (post_auth_register lt_number (env_at 1000) alice fresh_world)) = 200"
    by (simp add: post_auth_register_def alice_def fresh_world_def init_store_def Let_def)
  have h2: "status (fst (post_auth_login (env_at 2000) alice alice_world)) = 200"
    by (simp add: post_auth_login_def alice_world_users new_user_def alice_def get_prop_def)
  note t1 = responses_hide_password[where lt = lt_number and e = "env_at 1000" and b = alice
      and w = fresh_world]
  note t2 = responses_hide_password[where e = "env_at 2000" and b = alice and w = alice_world]
  from t1 have n1:
    "\<not> shows_password (body (fst (post_auth_register lt_number (env_at 1000) alice fresh_world)))"
    by blast
  from t2 have n2:
    "\<not> shows_password (body (fst (post_auth_login (env_at 2000) alice alice_world)))"
    by blast
  from t2 have g: "body (get_users alice_world)
      = JArr (map (\<lambda>u. JObj (without ''password'' u)) (users (mem alice_world)))"
    by blast
  have p: "get_prop (hd (users (mem alice_world))) ''password'' = JStr ''secret1''"
    by (simp add: alice_world_users new_user_def alice_def get_prop_def)
  have g': "JArr (map (\<lambda>u. JObj (without ''password'' u)) (users (mem alice_world)))
      = JArr [JObj [(''id'', JNum 1000), (''name'', JStr ''Alice''),
                   (''email'', JStr ''alice@muk.ac.zm''),
                   (''createdAt'', JStr ''2024-01-01T00:00:00.000Z'')]]"
    by (simp add: alice_world_users new_user_def alice_def without_def)
  show ?thesis
    by (intro conjI h1 p n1 h2 n2) (simp only: g g')
qed

section \<open>Inserts in sequence\<close>

lemma accepted_Cons:
  "accepted (rq # rqs) (r # rs) = (if status r = 200 then rq # accepted rqs rs else accepted rqs rs)"
  by (simp add: accepted_def)

lemma accepted_Nil: "accepted [] rs = []"
  by (simp add: accepted_def)

lemma post_article_outcome:
  "(\<exists>msg. post_article e b f w = (Response 400 (error_body msg), w)) \<or>
   post_article e b f w =
     (Response 200 (JObj (new_article e b f)),
      saved e ((mem w)\<lparr>articles := articles (mem w) @ [new_article e b f]\<rparr>) (cloud w))"
  by (auto simp: post_article_def Let_def)

lemma post_articles_appends:
  "post_articles rqs w = (rs, w') \<Longrightarrow>
   length rs = length rqs \<and>
   articles (mem w') = articles (mem w) @ map article_of (accepted rqs rs)"
proof (induction rqs arbitrary: w rs w')
  case Nil
  then show ?case by (simp add: accepted_Nil)
next
  case (Cons rq rqs)
  obtain r w1 where s1: "post_article (fst rq) (fst (snd rq)) (snd (snd rq)) w = (r, w1)"
    by (cases "post_article (fst rq) (fst (snd rq)) (snd (snd rq)) w")
  obtain rs' w2 where s2: "post_articles rqs w1 = (rs', w2)"
    by (cases "post_articles rqs w1")
  from Cons.prems s1 s2 have eq: "rs = r # rs'" "w' = w2" by simp_all
  note ih = Cons.IH[OF s2]
  from post_article_outcome[of "fst rq" "fst (snd rq)" "snd (snd rq)" w] s1
  consider (rej) "status r = 400" "w1 = w"
    | (acc) "status r = 200" "articles (mem w1) = articles (mem w) @ [article_of rq]"
    by (auto simp: saved_def article_of_def)
  then show ?case
  proof cases
    case rej
    with ih show ?thesis by (simp add: eq accepted_Cons)
  next
    case acc
    with ih show ?thesis by (simp add: eq accepted_Cons)
  qed
qed

lemma post_registers_appends:
  "post_registers lt rqs w = (rs, w') \<Longrightarrow>
   length rs = length rqs \<and>
   users (mem w') = users (mem w) @ map user_of (accepted rqs rs)"
proof (induction rqs arbitrary: w rs w')
  case Nil
  then show ?case by (simp add: accepted_Nil)
next
  case (Cons rq rqs)
  obtain r w1 where s1: "post_auth_register lt (fst rq) (snd rq) w = (r, w1)"
    by (cases "post_auth_register lt (fst rq) (snd rq) w")
  obtain rs' w2 where s2: "post_registers lt rqs w1 = (rs', w2)"
    by (cases "post_registers lt rqs w1")
  from Cons.prems s1 s2 have eq: "rs = r # rs'" "w' = w2" by simp_all
  note ih = Cons.IH[OF s2]
  from register_outcome[of lt "fst rq" "snd rq" w] s1
  consider (rej) "status r = 400" "w1 = w"
    | (acc) "status r = 200" "users (mem w1) = users (mem w) @ [user_of rq]"
    by (auto simp: saved_def user_of_def)
  then show ?case
  proof cases
    case rej
    with ih show ?thesis by (simp add: eq accepted_Cons)
  next
    case acc
    with ih show ?thesis by (simp add: eq accepted_Cons)
  qed
qed

lemma length_accepted:
  "length rs = length rqs \<Longrightarrow> length (accepted rqs rs) = length (filter (\<lambda>r. status r = 200) rs)"
proof (induction rqs arbitrary: rs)
  case Nil
  then show ?case by (simp add: accepted_Nil)
next
  case (Cons rq rqs)
  then obtain r rs' where "rs = r # rs'" by (cases rs) auto
  with Cons show ?case by (simp add: accepted_Cons)
qed

lemma distinct_map_JNum: "distinct (map (\<lambda>x. JNum (f x)) xs) = distinct (map f xs)"
  by (simp add: distinct_map inj_on_def)

text \<open>
  Claim C7, as the code has it.  A sequence of \<open>POST /articles\<close> requests, or of
  \<open>POST /auth/register\<close> requests, appends one record for each request that is answered
  with 200, in order, and changes no record that was there: the collection grows by the
  number of successful inserts.  The id of an appended record is the clock reading of its
  request, so the assigned ids are pairwise distinct exactly when the clock readings of the
  successful requests are.
\<close>

theorem inserts_in_sequence:
  "length (articles (mem (snd (post_articles rqs w))))
     = length (articles (mem w)) + length (filter (\<lambda>r. status r = 200) (fst (post_articles rqs w))) \<and>
   articles (mem (snd (post_articles rqs w)))
     = articles (mem w) @ map article_of (accepted rqs (fst (post_articles rqs w))) \<and>
   assigned_ids (length (articles (mem w))) (articles (mem (snd (post_articles rqs w))))
     = map (\<lambda>rq. JNum (date_now (fst rq))) (accepted rqs (fst (post_articles rqs w))) \<and>
   distinct (assigned_ids (length (articles (mem w))) (articles (mem (snd (post_articles rqs w)))))
     = distinct (map (\<lambda>rq. date_now (fst rq)) (accepted rqs (fst (post_articles rqs w)))) \<and>
   length (users (mem (snd (post_registers lt urqs w))))
     = length (users (mem w)) + length (filter (\<lambda>r. status r = 200) (fst (post_registers lt urqs w))) \<and>
   users (mem (snd (post_registers lt urqs w)))
     = users (mem w) @ map user_of (accepted urqs (fst (post_registers lt urqs w))) \<and>
   assigned_ids (length (users (mem w))) (users (mem (snd (post_registers lt urqs w))))
     = map (\<lambda>rq. JNum (date_now (fst rq))) (accepted urqs (fst (post_registers lt urqs w))) \<and>
   distinct (assigned_ids (length (users (mem w))) (users (mem (snd (post_registers lt urqs w)))))
     = distinct (map (\<lambda>rq. date_now (fst rq)) (accepted urqs (fst (post_registers lt urqs w))))"
proof -
  obtain rs w' where a: "post_articles rqs w = (rs, w')" by (cases "post_articles rqs w")
  obtain us w'' where u: "post_registers lt urqs w = (us, w'')" by (cases "post_registers lt urqs w")
  note pa = post_articles_appends[OF a]
  note pu = post_registers_appends[OF u]
  have ia: "assigned_ids (length (articles (mem w))) (articles (mem w'))
      = map (\<lambda>rq. JNum (date_now (fst rq))) (accepted rqs rs)"
    using pa by (simp add: assigned_ids_def article_of_def new_article_fields comp_def)
  have iu: "assigned_ids (length (users (mem w))) (users (mem w''))
      = map (\<lambda>rq. JNum (date_now (fst rq))) (accepted urqs us)"
    using pu by (simp add: assigned_ids_def user_of_def new_user_def get_prop_def comp_def)
  have da: "distinct (assigned_ids (length (articles (mem w))) (articles (mem w')))
      = distinct (map (\<lambda>rq. date_now (fst rq)) (accepted rqs rs))"
    by (simp only: ia distinct_map_JNum)
  have du: "distinct (assigned_ids (length (users (mem w))) (users (mem w'')))
      = distinct (map (\<lambda>rq. date_now (fst rq)) (accepted urqs us))"
    by (simp only: iu distinct_map_JNum)
  have la: "length (articles (mem w'))
      = length (articles (mem w)) + length (filter (\<lambda>r. status r = 200) rs)"
    using pa by (simp add: length_accepted)
  have lu: "length (users (mem w''))
      = length (users (mem w)) + length (filter (\<lambda>r. status r = 200) us)"
    using pu by (simp add: length_accepted)
  from la pa ia da lu pu iu du show ?thesis
    unfolding a u fst_conv snd_conv by blast
qed

theorem inserts_in_sequence_witness:
  "map status (fst (post_articles later_posts fresh_world)) = [200, 200] \<and>
   length (articles (mem (snd (post_articles later_posts fresh_world)))) = 2 \<and>
   assigned_ids 0 (articles (mem (snd (post_articles later_posts fresh_world))))
     = [JNum 1000, JNum 1001] \<and>
   distinct (assigned_ids 0 (articles (mem (snd (post_articles later_posts fresh_world)))))"
proof -
  have r: "fst (post_articles later_posts fresh_world)
      = [Response 200 (JObj (new_article (env_at 1000) (short_form ''A'' ''C'') None)),
         Response 200 (JObj (new_article (env_at 1001) (short_form ''B'' ''C'') None))]"
    by (simp add: later_posts_def post_article_def short_form_def Let_def split_def)
  have a: "accepted later_posts (fst (post_articles later_posts fresh_world)) = later_posts"
    by (simp add: r) (simp add: later_posts_def accepted_def)
  have z: "length (articles (mem fresh_world)) = 0"
    by (simp add: fresh_world_def init_store_def)
  note t = inserts_in_sequence[where rqs = later_posts and w = fresh_world and urqs = "[]"
      and lt = lt_number, unfolded a z]
  from t have len: "length (articles (mem (snd (post_articles later_posts fresh_world))))
      = 0 + length (filter (\<lambda>r. status r = 200) (fst (post_articles later_posts fresh_world)))"
    by blast
  from t have ids: "assigned_ids 0 (articles (mem (snd (post_articles later_posts fresh_world))))
      = map (\<lambda>rq. JNum (date_now (fst rq))) later_posts"
    by blast
  have v: "map (\<lambda>rq. JNum (date_now (fst rq))) later_posts = [JNum 1000, JNum 1001]"
    by (simp add: later_posts_def)
  show ?thesis
    by (simp add: len ids v) (simp add: r)
qed

text \<open>The claim as it is stated fails on two inserts that read the same clock: both are
  answered with 200, both records are in the collection, and both carry the id 1000.\<close>

theorem inserts_in_sequence_counterexample:
  "map status (fst (post_articles two_posts fresh_world)) = [200, 200] \<and>
   length (articles (mem (snd (post_articles two_posts fresh_world)))) = 2 \<and>
   assigned_ids 0 (articles (mem (snd (post_articles two_posts fresh_world))))
     = [JNum 1000, JNum 1000] \<and>
   \<not> distinct (assigned_ids 0 (articles (mem (snd (post_articles two_posts fresh_world)))))"
  by (simp add: two_posts_def post_article_def short_form_def Let_def split_def saved_def
      fresh_world_def init_store_def assigned_ids_def new_article_def get_prop_def)

end
